theory Spec2Isabelle
  imports Complex_Main
begin

section \<open>The path interpreter and the marker engine of cairosvgmg/path.py\<close>

text \<open>
  The module has two functions, \<^verbatim>\<open>path(surface, node)\<close> and
  \<^verbatim>\<open>draw_markers(surface, node)\<close>. Both are embedded below, line by line.

  Numbers: Python floats are modelled as \<^typ>\<open>real\<close>, so rounding, signed zeros,
  infinities and NaN are outside the model (the one place where the module reads the sign
  of a zero, \<^verbatim>\<open>copysign\<close>, takes it from a parameter). Strings are \<^typ>\<open>string\<close>; a
  character is a code point below 256, and code points from 256 on are outside the model.
  Exceptions are values of \<open>error\<close>; a function that can raise
  returns \<open>error + 'a\<close> with \<open>Inl\<close> the exception. \<open>PointError\<close> is the exception
  of the helper \<^verbatim>\<open>point\<close>; \<open>HelperError\<close> stands for any other exception of a helper
  (the module itself raises neither).
\<close>

subsection \<open>Python primitives used by the module\<close>

datatype error =
    TypeError | ValueError | IndexError | AttributeError | ZeroDivisionError
  | PointError | HelperError

definition ebind :: "'e + 'a \<Rightarrow> ('a \<Rightarrow> 'e + 'b) \<Rightarrow> 'e + 'b" where
  "ebind m f = (case m of Inl e \<Rightarrow> Inl e | Inr x \<Rightarrow> f x)"

text \<open>
  \<^verbatim>\<open>str.isspace\<close> on the code points below 256: tab, LF, VT, FF, CR, FS, GS, RS, US,
  space, NEL (U+0085) and the no-break space (U+00A0).
\<close>

definition is_space :: "char \<Rightarrow> bool" where
  "is_space c = (c \<in> set [CHR 0x09, CHR 0x0A, CHR 0x0B, CHR 0x0C, CHR 0x0D,
                           CHR 0x1C, CHR 0x1D, CHR 0x1E, CHR 0x1F, CHR 0x20,
                           CHR 0x85, CHR 0xA0])"

text \<open>\<^verbatim>\<open>s.strip()\<close>\<close>

definition strip :: "string \<Rightarrow> string" where
  "strip s = rev (dropWhile is_space (rev (dropWhile is_space s)))"

text \<open>
  \<^verbatim>\<open>s.split(' ', 1)\<close>: the text before the first space, and the text after it when
  there is a space (\<open>None\<close>: the list has one element only).
\<close>

fun split1 :: "string \<Rightarrow> string \<times> string option" where
  "split1 [] = ([], None)"
| "split1 (c # cs) =
     (if c = CHR '' '' then ([], Some cs)
      else (case split1 cs of (a, r) \<Rightarrow> (c # a, r)))"

fun starts_with :: "string \<Rightarrow> string \<Rightarrow> bool" where
  "starts_with [] t = True"
| "starts_with (c # cs) [] = False"
| "starts_with (c # cs) (d # ds) = (c = d \<and> starts_with cs ds)"

text \<open>\<^verbatim>\<open>s in t\<close> for two strings: \<open>s\<close> occurs in \<open>t\<close> as a substring.\<close>

fun py_in :: "string \<Rightarrow> string \<Rightarrow> bool" where
  "py_in s [] = (s = [])"
| "py_in s (d # ds) = (starts_with s (d # ds) \<or> py_in s ds)"

text \<open>\<^verbatim>\<open>s.replace(c, ' c ')\<close> for a one-character string \<open>c\<close>.\<close>

definition replace_letter :: "char \<Rightarrow> string \<Rightarrow> string" where
  "replace_letter c s = concat (map (\<lambda>d. if d = c then [CHR '' '', c, CHR '' ''] else [d]) s)"

text \<open>\<^verbatim>\<open>int(c)\<close> for a one-character string: a decimal digit, or ValueError.\<close>

definition int_of_char :: "char \<Rightarrow> error + int" where
  "int_of_char c =
     (if c \<in> set ''0123456789'' then Inr (int (of_char c) - int (of_char CHR ''0''))
      else Inl ValueError)"

text \<open>
  \<^verbatim>\<open>math.radians\<close>, \<^verbatim>\<open>math.hypot\<close> and \<^verbatim>\<open>math.copysign\<close> on reals.
  \<^verbatim>\<open>copysign(a, b)\<close> follows the sign bit of \<open>b\<close>, which a real number has not when
  it is 0: the third argument says whether the float \<open>b\<close> is the negative zero, and is
  read only when \<open>b\<close> is 0.
\<close>

definition radians :: "real \<Rightarrow> real" where
  "radians d = d * pi / 180"

definition hypot :: "real \<Rightarrow> real \<Rightarrow> real" where
  "hypot a b = sqrt (a\<^sup>2 + b\<^sup>2)"

definition copysign :: "real \<Rightarrow> real \<Rightarrow> bool \<Rightarrow> real" where
  "copysign a b negative_zero =
     (if b < 0 \<or> (b = 0 \<and> negative_zero) then - \<bar>a\<bar> else \<bar>a\<bar>)"

subsection \<open>The drawing surface and the nodes\<close>

text \<open>
  The cairo context is an external collaborator: the model records the calls made on it, in
  order. \<open>Scale1 s\<close> is \<^verbatim>\<open>scale(s)\<close>, \<open>Scale sx sy\<close> is \<^verbatim>\<open>scale(sx, sy)\<close>;
  \<open>Draw c\<close> is \<^verbatim>\<open>surface.draw(child)\<close>.
\<close>

datatype call =
    Move_to real real | Rel_move_to real real
  | Line_to real real | Rel_line_to real real
  | Curve_to real real real real real real
  | Rel_curve_to real real real real real real
  | Arc real real real real real
  | Arc_negative real real real real real
  | Close_path | Set_tolerance real
  | Save | Restore | Translate real real | Rotate real
  | Scale1 real | Scale real real
  | Rectangle real real real real | Clip
  | Copy_path | New_path | Append_path
  | Draw string

text \<open>
  An entry of \<^verbatim>\<open>node.vertices\<close> is a 2-tuple (a point or a pair of angles: the source
  tells them apart by position only) or \<^verbatim>\<open>None\<close>.
\<close>

type_synonym vertex = "(real \<times> real) option"

text \<open>
  A node is dict-like: \<open>attrs\<close> are its attributes, \<open>children\<close> the tags of its child
  nodes (they are only handed to \<^verbatim>\<open>surface.draw\<close>), and \<open>node_vertices\<close> the attribute
  \<^verbatim>\<open>node.vertices\<close>, \<open>None\<close> while it has never been set.
\<close>

record node =
  attrs :: "string \<rightharpoonup> string"
  children :: "string list"
  node_vertices :: "vertex list option"

text \<open>
  Of the surface the module reads \<^verbatim>\<open>context.has_current_point()\<close> and
  \<^verbatim>\<open>context.get_current_point()\<close> (once, on entry of \<^verbatim>\<open>path\<close>: \<open>ctx_point\<close>),
  \<^verbatim>\<open>surface.markers\<close> (a dict from fragment to marker node) and
  \<^verbatim>\<open>surface.parent_node\<close>; it writes calls to the context.
\<close>

record surface =
  ctx_point :: "(real \<times> real) option"
  ctx_calls :: "call list"
  markers :: "string \<rightharpoonup> node"
  parent_node :: node

subsection \<open>The state of the loop of \<^verbatim>\<open>path\<close>\<close>

text \<open>
  The local variables that live across iterations, \<^verbatim>\<open>node.vertices\<close> and the calls made
  on the context. \<open>x1\<close> .. \<open>y3\<close> are the control points a cubic or quadratic command leaves
  behind for a following smooth command. A smooth command reads them only when
  \<^verbatim>\<open>last_letter\<close> occurs in \<^verbatim>\<open>'csCS'\<close> or \<^verbatim>\<open>'QqTt'\<close>; when that letter is one
  of these eight, the command before has assigned them. Before the first assignment they
  are 0 here, where Python has no value (only an empty \<^verbatim>\<open>last_letter\<close> could read them
  then, and that needs \<^verbatim>\<open>point\<close> to accept an empty string).
\<close>

record pstate =
  string :: string
  letter :: string
  last_letter :: "string option"
  current_point :: "real \<times> real"
  first_path_point :: "(real \<times> real) option"
  x1 :: real
  y1 :: real
  x2 :: real
  y2 :: real
  x3 :: real
  y3 :: real
  vertices :: "vertex list"
  calls :: "call list"

subsection \<open>The helpers imported from outside the module\<close>

text \<open>
  \<^verbatim>\<open>helpers.py\<close>, \<^verbatim>\<open>url.py\<close> and \<^verbatim>\<open>bounding_box.py\<close> are not part of the
  sources at hand, so their functions are parameters of the model, collected in one record.
  Each is the helper applied to the surface of the call (of which the helpers read unit
  settings only). \<open>float_of\<close> and \<open>float_str\<close> are Python's \<^verbatim>\<open>float(s)\<close> and the
  formatting of a float inside an f-string, parameters as well because numbers are reals here.
  \<open>negative_zero\<close> is the sign bit that the reals do not have: for a vertical line command
  run in the given state, whether the float that the command passes to \<^verbatim>\<open>copysign\<close> is
  the negative zero (\<^verbatim>\<open>-0.0\<close>); it is read only when the real value of that float is 0.
\<close>

record helpers =
  normalize :: "string \<Rightarrow> string"
  point :: "string \<Rightarrow> error + (real \<times> real \<times> string)"
  size :: "string \<Rightarrow> string \<Rightarrow> error + real"
  point_angle :: "real \<Rightarrow> real \<Rightarrow> real \<Rightarrow> real \<Rightarrow> real"
  rotate :: "real \<Rightarrow> real \<Rightarrow> real \<Rightarrow> real \<times> real"
  quadratic_points ::
    "real \<Rightarrow> real \<Rightarrow> real \<Rightarrow> real \<Rightarrow> real \<Rightarrow> real \<Rightarrow> real \<times> real \<times> real \<times> real \<times> real \<times> real"
  float_of :: "string \<Rightarrow> error + real"
  float_str :: "real \<Rightarrow> string"
  negative_zero :: "pstate \<Rightarrow> bool"
  url_fragment :: "string \<Rightarrow> string"
  node_format_viewbox :: "node \<Rightarrow> error + bool"
  preserve_ratio :: "node \<Rightarrow> error + (real \<times> real \<times> real \<times> real)"
  clip_marker_box :: "node \<Rightarrow> real \<Rightarrow> real \<Rightarrow> error + (real \<times> real \<times> real \<times> real) option"
  calculate_bounding_box :: "node \<Rightarrow> error + (real \<times> real \<times> real \<times> real) option"

text \<open>
  Modelled from the spec: \<^verbatim>\<open>PATH_LETTERS\<close> of helpers.py (not in the sources at hand),
  the command letters the spec lists for the interpreter: a, c, h, l, m, q, s, t, v, z in
  lower and upper case.
\<close>

definition PATH_LETTERS :: string where
  "PATH_LETTERS = ''achlmqstvzACHLMQSTVZ''"

subsection \<open>One iteration of the loop: reading the command letter (lines 145 to 160)\<close>

definition fetch :: "pstate \<Rightarrow> error + pstate" where
  "fetch st =
     (let s = strip (string st) in
      ebind
        (if py_in (fst (split1 s)) PATH_LETTERS then
           (case split1 (s @ '' '') of
              (l, None) \<Rightarrow> Inl ValueError
            | (l, Some r) \<Rightarrow>
                if last_letter st \<in> {None, Some ''z'', Some ''Z''} \<and> \<not> py_in l ''mM''
                then Inr (st\<lparr>string := r, letter := l,
                              first_path_point := Some (current_point st),
                              vertices := vertices st @ [Some (current_point st)]\<rparr>)
                else Inr (st\<lparr>string := r, letter := l\<rparr>))
         else if letter st = ''M'' then Inr (st\<lparr>string := s, letter := ''L''\<rparr>)
         else if letter st = ''m'' then Inr (st\<lparr>string := s, letter := ''l''\<rparr>)
         else Inr (st\<lparr>string := s\<rparr>))
        (\<lambda>st1.
           let st2 = (if last_letter st1 \<in> {None, Some ''m'', Some ''M'', Some ''z'', Some ''Z''}
                      then st1\<lparr>first_path_point := None\<rparr> else st1)
           in Inr (if letter st2 \<notin> {''m'', ''M'', ''z'', ''Z''} \<and> first_path_point st2 = None
                   then st2\<lparr>first_path_point := Some (current_point st2)\<rparr> else st2)))"

text \<open>Lines 451 to 455, the end of an iteration that was not left by \<^verbatim>\<open>continue\<close>.\<close>

definition finish :: "pstate \<Rightarrow> pstate" where
  "finish st =
     (if \<not> py_in (letter st) ''zZ''
      then st\<lparr>vertices := vertices st @ [Some (current_point st)],
              string := strip (string st), last_letter := Some (letter st)\<rparr>
      else st\<lparr>string := strip (string st), last_letter := Some (letter st)\<rparr>)"

subsection \<open>The elliptical arc (lines 162 to 248)\<close>

text \<open>
  Lines 215 to 224: the x radius is updated, one circle centre is found and one of the two
  circles is chosen. \<open>xe\<close> is the distance of the end point from the origin in the
  compressed frame; \<^verbatim>\<open>large ^ sweep\<close> is the exclusive or of the two flags. The source
  takes the power \<^verbatim>\<open>.5\<close> of \<^verbatim>\<open>rx ** 2 - xc ** 2\<close>, which is the square root
  as long as that number is not negative; over the reals it never is after the update of
  the radius (lemma \<open>arc_radicand_nonneg\<close> below).
\<close>

definition arc_centre :: "real \<Rightarrow> real \<Rightarrow> bool \<Rightarrow> bool \<Rightarrow> real \<times> real \<times> real" where
  "arc_centre rx xe large sweep =
     (let rx' = max rx (xe / 2);
          xc = xe / 2;
          yc = sqrt (rx'\<^sup>2 - xc\<^sup>2)
      in (rx', xc, if \<not> (large \<noteq> sweep) then - yc else yc))"

text \<open>
  Lines 202 to 236: from the radii, the rotation, the flags and the relative end point to
  the ratio of the radii, the corrected x radius, the centre and the two drawing angles.
\<close>

definition arc_convert ::
  "helpers \<Rightarrow> real \<Rightarrow> real \<Rightarrow> real \<Rightarrow> bool \<Rightarrow> bool \<Rightarrow> real \<Rightarrow> real
     \<Rightarrow> real \<times> real \<times> real \<times> real \<times> real \<times> real" where
  "arc_convert h rx ry rotation large sweep ex ey =
     (let radii_ratio = ry / rx;
          (xe, ye0) = rotate h ex ey (- rotation);
          ye = ye0 / radii_ratio;
          angle = point_angle h 0 0 xe ye;
          xe' = hypot xe ye;
          (rx', xc, yc) = arc_centre rx xe' large sweep;
          (xe'', ye'') = rotate h xe' 0 angle;
          (xc', yc') = rotate h xc yc angle;
          angle1 = point_angle h xc' yc' 0 0;
          angle2 = point_angle h xc' yc' xe'' ye''
      in (radii_ratio, rx', xc', yc', angle1, angle2))"

text \<open>
  Lines 190 to 200: an arc with a zero radius is written back into the string as a relative
  line, followed by the letter of the arc when the string goes on with a number.
\<close>

definition degenerate_arc :: "helpers \<Rightarrow> string \<Rightarrow> real \<Rightarrow> real \<Rightarrow> string \<Rightarrow> string" where
  "degenerate_arc h l ex ey s =
     (let next_letter = (if s \<noteq> [] \<and> \<not> py_in [hd s] PATH_LETTERS then l @ '' '' else [])
      in ''l '' @ float_str h ex @ '' '' @ float_str h ey @ '' '' @ next_letter @ s)"

text \<open>
  Lines 166 to 177: the arguments of the arc are read from the string: the two radii, the
  rotation in degrees, the two flags as one character each, the end point, and the rest.
\<close>

definition arc_args ::
  "helpers \<Rightarrow> string
     \<Rightarrow> error + (real \<times> real \<times> real \<times> char \<times> char \<times> real \<times> real \<times> string)" where
  "arc_args h s =
     ebind (point h s) (\<lambda>(rx, ry, s1).
     case split1 s1 of
       (rot, None) \<Rightarrow> Inl ValueError
     | (rot, Some s2) \<Rightarrow>
     ebind (float_of h rot) (\<lambda>degrees.
     case s2 of
       [] \<Rightarrow> Inl IndexError
     | large # s3 \<Rightarrow>
     (case strip s3 of
       [] \<Rightarrow> Inl IndexError
     | sweep # s4 \<Rightarrow>
     ebind (point h (strip s4)) (\<lambda>(ex, ey, s5).
       Inr (rx, ry, degrees, large, sweep, ex, ey, s5)))))"

text \<open>
  The whole branch. The two \<^verbatim>\<open>continue\<close> statements return the state without
  \<open>finish\<close>: \<open>last_letter\<close> keeps its value and no point is appended.
\<close>

definition cmd_a :: "helpers \<Rightarrow> pstate \<Rightarrow> error + pstate" where
  "cmd_a h st =
     (let st0 = st\<lparr>calls := calls st @ [Set_tolerance (1 / 100000)],
                   x1 := fst (current_point st), y1 := snd (current_point st)\<rparr>
      in
      ebind (arc_args h (string st)) (\<lambda>(rx, ry, degrees, large, sweep, ex, ey, s5).
      ebind (int_of_char large) (\<lambda>large_i.
      ebind (int_of_char sweep) (\<lambda>sweep_i.
        if large_i \<notin> {0, 1} \<or> sweep_i \<notin> {0, 1}
        then Inr (st0\<lparr>x3 := ex, y3 := ey, string := s5\<rparr>)
        else
          let rotation = radians degrees;
              ex' = (if letter st = ''A'' then ex - x1 st0 else ex);
              ey' = (if letter st = ''A'' then ey - y1 st0 else ey)
          in
          if rx = 0 \<or> ry = 0
          then Inr (st0\<lparr>x3 := ex', y3 := ey',
                        string := degenerate_arc h (letter st) ex' ey' s5\<rparr>)
          else
            (case arc_convert h rx ry rotation (large_i \<noteq> 0) (sweep_i \<noteq> 0) ex' ey' of
               (radii_ratio, rx', xc, yc, angle1, angle2) \<Rightarrow>
                 Inr (finish (st0\<lparr>x3 := ex', y3 := ey', string := s5,
                   vertices := vertices st @ [Some (- angle1, - angle2)],
                   calls := calls st0 @
                     [Save, Translate (x1 st0) (y1 st0), Rotate rotation, Scale 1 radii_ratio,
                      (if sweep_i \<noteq> 0 then Arc xc yc rx' angle1 angle2
                       else Arc_negative xc yc rx' angle1 angle2),
                      Restore],
                   current_point :=
                     (fst (current_point st) + ex', snd (current_point st) + ey')\<rparr>)))))))"

subsection \<open>The other commands (lines 250 to 449)\<close>

definition cmd_c :: "helpers \<Rightarrow> pstate \<Rightarrow> error + pstate" where
  "cmd_c h st =
     (let x = fst (current_point st); y = snd (current_point st) in
      ebind (point h (string st)) (\<lambda>(a1, b1, s1).
      ebind (point h s1) (\<lambda>(a2, b2, s2).
      ebind (point h s2) (\<lambda>(a3, b3, s3).
        Inr (st\<lparr>string := s3,
          vertices := vertices st @
            [Some (point_angle h a2 b2 a1 b1, point_angle h a2 b2 a3 b3)],
          calls := calls st @ [Rel_curve_to a1 b1 a2 b2 a3 b3],
          current_point := (fst (current_point st) + a3, snd (current_point st) + b3),
          x1 := a1 + x, x2 := a2 + x, x3 := a3 + x,
          y1 := b1 + y, y2 := b2 + y, y3 := b3 + y\<rparr>)))))"

definition cmd_C :: "helpers \<Rightarrow> pstate \<Rightarrow> error + pstate" where
  "cmd_C h st =
     ebind (point h (string st)) (\<lambda>(a1, b1, s1).
     ebind (point h s1) (\<lambda>(a2, b2, s2).
     ebind (point h s2) (\<lambda>(a3, b3, s3).
       Inr (st\<lparr>string := s3,
         vertices := vertices st @
           [Some (point_angle h a2 b2 a1 b1, point_angle h a2 b2 a3 b3)],
         calls := calls st @ [Curve_to a1 b1 a2 b2 a3 b3],
         current_point := (a3, b3),
         x1 := a1, y1 := b1, x2 := a2, y2 := b2, x3 := a3, y3 := b3\<rparr>))))"

definition cmd_h :: "helpers \<Rightarrow> pstate \<Rightarrow> error + pstate" where
  "cmd_h h st =
     (case split1 (string st @ '' '') of
        (x, None) \<Rightarrow> Inl ValueError
      | (x, Some s) \<Rightarrow>
        ebind (size h x ''x'') (\<lambda>v.
          let angle = (if v > 0 then 0 else pi) in
          ebind (size h x ''x'') (\<lambda>x'.
            Inr (st\<lparr>string := s,
              vertices := vertices st @ [Some (pi - angle, angle)],
              calls := calls st @ [Rel_line_to x' 0],
              current_point := (fst (current_point st) + x', snd (current_point st))\<rparr>))))"

definition cmd_H :: "helpers \<Rightarrow> pstate \<Rightarrow> error + pstate" where
  "cmd_H h st =
     (case split1 (string st @ '' '') of
        (x, None) \<Rightarrow> Inl ValueError
      | (x, Some s) \<Rightarrow>
        (let old_x = fst (current_point st); old_y = snd (current_point st) in
         ebind (size h x ''x'') (\<lambda>v.
           let angle = (if v > old_x then 0 else pi) in
           ebind (size h x ''x'') (\<lambda>x'.
             Inr (st\<lparr>string := s,
               vertices := vertices st @ [Some (pi - angle, angle)],
               calls := calls st @ [Line_to x' old_y],
               current_point := (x', snd (current_point st))\<rparr>)))))"

definition cmd_l :: "helpers \<Rightarrow> pstate \<Rightarrow> error + pstate" where
  "cmd_l h st =
     ebind (point h (string st)) (\<lambda>(x, y, s).
       let angle = point_angle h 0 0 x y in
       Inr (st\<lparr>string := s,
         vertices := vertices st @ [Some (pi - angle, angle)],
         calls := calls st @ [Rel_line_to x y],
         current_point := (fst (current_point st) + x, snd (current_point st) + y)\<rparr>))"

definition cmd_L :: "helpers \<Rightarrow> pstate \<Rightarrow> error + pstate" where
  "cmd_L h st =
     ebind (point h (string st)) (\<lambda>(x, y, s).
       let old_x = fst (current_point st); old_y = snd (current_point st);
           angle = point_angle h old_x old_y x y in
       Inr (st\<lparr>string := s,
         vertices := vertices st @ [Some (pi - angle, angle)],
         calls := calls st @ [Line_to x y],
         current_point := (x, y)\<rparr>))"

text \<open>
  \<^verbatim>\<open>if last_letter and last_letter not in 'zZ'\<close>: the last letter is neither
  \<^verbatim>\<open>None\<close> nor empty, and does not occur in \<^verbatim>\<open>'zZ'\<close>.
\<close>

definition break_before_move :: "string option \<Rightarrow> bool" where
  "break_before_move ll = (case ll of None \<Rightarrow> False | Some l \<Rightarrow> l \<noteq> [] \<and> \<not> py_in l ''zZ'')"

definition cmd_m :: "helpers \<Rightarrow> pstate \<Rightarrow> error + pstate" where
  "cmd_m h st =
     ebind (point h (string st)) (\<lambda>(x, y, s).
       Inr (st\<lparr>string := s,
         vertices := (if break_before_move (last_letter st) then vertices st @ [None]
                      else vertices st),
         calls := calls st @ [Rel_move_to x y],
         current_point := (fst (current_point st) + x, snd (current_point st) + y)\<rparr>))"

definition cmd_M :: "helpers \<Rightarrow> pstate \<Rightarrow> error + pstate" where
  "cmd_M h st =
     ebind (point h (string st)) (\<lambda>(x, y, s).
       Inr (st\<lparr>string := s,
         vertices := (if break_before_move (last_letter st) then vertices st @ [None]
                      else vertices st),
         calls := calls st @ [Move_to x y],
         current_point := (x, y)\<rparr>))"

definition cmd_q :: "helpers \<Rightarrow> pstate \<Rightarrow> error + pstate" where
  "cmd_q h st =
     ebind (point h (string st)) (\<lambda>(a2, b2, s1).
     ebind (point h s1) (\<lambda>(a3, b3, s2).
       case quadratic_points h 0 0 a2 b2 a3 b3 of
         (xq1, yq1, xq2, yq2, xq3, yq3) \<Rightarrow>
           Inr (st\<lparr>string := s2,
             x1 := 0, y1 := 0, x2 := a2, y2 := b2, x3 := a3, y3 := b3,
             calls := calls st @ [Rel_curve_to xq1 yq1 xq2 yq2 xq3 yq3],
             vertices := vertices st @ [Some (0, 0)],
             current_point := (fst (current_point st) + a3, snd (current_point st) + b3)\<rparr>)))"

definition cmd_Q :: "helpers \<Rightarrow> pstate \<Rightarrow> error + pstate" where
  "cmd_Q h st =
     (let a1 = fst (current_point st); b1 = snd (current_point st) in
      ebind (point h (string st)) (\<lambda>(a2, b2, s1).
      ebind (point h s1) (\<lambda>(a3, b3, s2).
        case quadratic_points h a1 b1 a2 b2 a3 b3 of
          (xq1, yq1, xq2, yq2, xq3, yq3) \<Rightarrow>
            Inr (st\<lparr>string := s2,
              x1 := a1, y1 := b1, x2 := a2, y2 := b2, x3 := a3, y3 := b3,
              calls := calls st @ [Curve_to xq1 yq1 xq2 yq2 xq3 yq3],
              vertices := vertices st @ [Some (0, 0)],
              current_point := (a3, b3)\<rparr>))))"

text \<open>
  \<^verbatim>\<open>last_letter in 'csCS'\<close> raises TypeError when \<^verbatim>\<open>last_letter\<close> is
  \<^verbatim>\<open>None\<close>: the left operand of \<^verbatim>\<open>in\<close> on a string must be a string.
\<close>

definition cmd_s :: "helpers \<Rightarrow> pstate \<Rightarrow> error + pstate" where
  "cmd_s h st =
     (let x = fst (current_point st); y = snd (current_point st) in
      case last_letter st of
        None \<Rightarrow> Inl TypeError
      | Some ll \<Rightarrow>
        (let a1 = (if py_in ll ''csCS'' then x3 st - x2 st else 0);
             b1 = (if py_in ll ''csCS'' then y3 st - y2 st else 0) in
         ebind (point h (string st)) (\<lambda>(a2, b2, s1).
         ebind (point h s1) (\<lambda>(a3, b3, s2).
           Inr (st\<lparr>string := s2,
             vertices := vertices st @
               [Some (point_angle h a2 b2 a1 b1, point_angle h a2 b2 a3 b3)],
             calls := calls st @ [Rel_curve_to a1 b1 a2 b2 a3 b3],
             current_point := (fst (current_point st) + a3, snd (current_point st) + b3),
             x1 := a1 + x, x2 := a2 + x, x3 := a3 + x,
             y1 := b1 + y, y2 := b2 + y, y3 := b3 + y\<rparr>)))))"

definition cmd_S :: "helpers \<Rightarrow> pstate \<Rightarrow> error + pstate" where
  "cmd_S h st =
     (let x = fst (current_point st); y = snd (current_point st) in
      case last_letter st of
        None \<Rightarrow> Inl TypeError
      | Some ll \<Rightarrow>
        (let a1 = (if py_in ll ''csCS'' then x3 st + (x3 st - x2 st) else x);
             b1 = (if py_in ll ''csCS'' then y3 st + (y3 st - y2 st) else y) in
         ebind (point h (string st)) (\<lambda>(a2, b2, s1).
         ebind (point h s1) (\<lambda>(a3, b3, s2).
           Inr (st\<lparr>string := s2,
             vertices := vertices st @
               [Some (point_angle h a2 b2 a1 b1, point_angle h a2 b2 a3 b3)],
             calls := calls st @ [Curve_to a1 b1 a2 b2 a3 b3],
             current_point := (a3, b3),
             x1 := a1, y1 := b1, x2 := a2, y2 := b2, x3 := a3, y3 := b3\<rparr>)))))"

definition cmd_t :: "helpers \<Rightarrow> pstate \<Rightarrow> error + pstate" where
  "cmd_t h st =
     (case last_letter st of
        None \<Rightarrow> Inl TypeError
      | Some ll \<Rightarrow>
        (let (a1, b1) = (x1 st, y1 st);
             (a2, b2, a3, b3) =
               (if \<not> py_in ll ''QqTt'' then (0, 0, 0, 0)
                else if py_in ll ''QT'' then (x2 st - a1, y2 st - b1, x3 st - a1, y3 st - b1)
                else (x2 st, y2 st, x3 st, y3 st));
             a2' = a3 - a2; b2' = b3 - b2 in
         ebind (point h (string st)) (\<lambda>(a3', b3', s1).
           case quadratic_points h 0 0 a2' b2' a3' b3' of
             (xq1, yq1, xq2, yq2, xq3, yq3) \<Rightarrow>
               Inr (st\<lparr>string := s1,
                 x1 := 0, y1 := 0, x2 := a2', y2 := b2', x3 := a3', y3 := b3',
                 vertices := vertices st @ [Some (0, 0)],
                 calls := calls st @ [Rel_curve_to xq1 yq1 xq2 yq2 xq3 yq3],
                 current_point :=
                   (fst (current_point st) + a3', snd (current_point st) + b3')\<rparr>))))"

definition cmd_T :: "helpers \<Rightarrow> pstate \<Rightarrow> error + pstate" where
  "cmd_T h st =
     (let abs_x = fst (current_point st); abs_y = snd (current_point st) in
      case last_letter st of
        None \<Rightarrow> Inl TypeError
      | Some ll \<Rightarrow>
        (let (a2, b2, a3, b3) =
               (if \<not> py_in ll ''QqTt'' then (abs_x, abs_y, abs_x, abs_y)
                else if py_in ll ''qt''
                then (x2 st + abs_x, y2 st + abs_y, x3 st + abs_x, y3 st + abs_y)
                else (x2 st, y2 st, x3 st, y3 st));
             a2' = abs_x + (a3 - a2); b2' = abs_y + (b3 - b2) in
         ebind (point h (string st)) (\<lambda>(a3', b3', s1).
           case quadratic_points h abs_x abs_y a2' b2' a3' b3' of
             (xq1, yq1, xq2, yq2, xq3, yq3) \<Rightarrow>
               Inr (st\<lparr>string := s1,
                 x1 := abs_x, y1 := abs_y, x2 := a2', y2 := b2', x3 := a3', y3 := b3',
                 vertices := vertices st @ [Some (0, 0)],
                 calls := calls st @ [Curve_to xq1 yq1 xq2 yq2 xq3 yq3],
                 current_point := (a3', b3')\<rparr>))))"

definition cmd_v :: "helpers \<Rightarrow> pstate \<Rightarrow> error + pstate" where
  "cmd_v h st =
     (case split1 (string st @ '' '') of
        (y, None) \<Rightarrow> Inl ValueError
      | (y, Some s) \<Rightarrow>
        ebind (size h y ''y'') (\<lambda>v.
          let angle = copysign (pi / 2) v (negative_zero h st) in
          ebind (size h y ''y'') (\<lambda>y'.
            Inr (st\<lparr>string := s,
              vertices := vertices st @ [Some (- angle, angle)],
              calls := calls st @ [Rel_line_to 0 y'],
              current_point := (fst (current_point st), snd (current_point st) + y')\<rparr>))))"

definition cmd_V :: "helpers \<Rightarrow> pstate \<Rightarrow> error + pstate" where
  "cmd_V h st =
     (case split1 (string st @ '' '') of
        (y, None) \<Rightarrow> Inl ValueError
      | (y, Some s) \<Rightarrow>
        (let old_x = fst (current_point st); old_y = snd (current_point st) in
         ebind (size h y ''y'') (\<lambda>v.
           let angle = copysign (pi / 2) (v - old_y) (negative_zero h st) in
           ebind (size h y ''y'') (\<lambda>y'.
             Inr (st\<lparr>string := s,
               vertices := vertices st @ [Some (- angle, angle)],
               calls := calls st @ [Line_to old_x y'],
               current_point := (fst (current_point st), y')\<rparr>)))))"

text \<open>
  Line 445: \<^verbatim>\<open>elif letter in 'zZ' and first_path_point\<close>; a point is a non-empty
  tuple and so true, \<^verbatim>\<open>None\<close> is false.
\<close>

definition cmd_z :: "pstate \<Rightarrow> pstate" where
  "cmd_z st =
     (case first_path_point st of
        None \<Rightarrow> st
      | Some p \<Rightarrow> st\<lparr>vertices := vertices st @ [None],
                     calls := calls st @ [Close_path],
                     current_point := p\<rparr>)"

subsection \<open>The dispatch, the iteration and the loop\<close>

definition command :: "helpers \<Rightarrow> pstate \<Rightarrow> error + pstate" where
  "command h st =
     (let l = letter st in
      if py_in l ''aA'' then cmd_a h st
      else ebind
        (if l = ''c'' then cmd_c h st
         else if l = ''C'' then cmd_C h st
         else if l = ''h'' then cmd_h h st
         else if l = ''H'' then cmd_H h st
         else if l = ''l'' then cmd_l h st
         else if l = ''L'' then cmd_L h st
         else if l = ''m'' then cmd_m h st
         else if l = ''M'' then cmd_M h st
         else if l = ''q'' then cmd_q h st
         else if l = ''Q'' then cmd_Q h st
         else if l = ''s'' then cmd_s h st
         else if l = ''S'' then cmd_S h st
         else if l = ''t'' then cmd_t h st
         else if l = ''T'' then cmd_T h st
         else if l = ''v'' then cmd_v h st
         else if l = ''V'' then cmd_V h st
         else if py_in l ''zZ'' then Inr (cmd_z st)
         else Inr st)
        (\<lambda>st'. Inr (finish st')))"

text \<open>One iteration of \<^verbatim>\<open>while string\<close>.\<close>

definition path_step :: "helpers \<Rightarrow> pstate \<Rightarrow> error + pstate" where
  "path_step h st = ebind (fetch st) (command h)"

text \<open>
  The loop. It need not terminate (a string that goes on with a number after a closepath is
  never consumed), so it is a partial function: \<open>None\<close> is a run that does not return,
  \<open>Some (Inl e)\<close> one that raises \<open>e\<close>, \<open>Some (Inr st)\<close> one that returns.
\<close>

partial_function (option) path_loop :: "helpers \<Rightarrow> pstate \<Rightarrow> (error + pstate) option" where
  "path_loop h st =
     (if string st = [] then Some (Inr st)
      else (case path_step h st of
              Inl e \<Rightarrow> Some (Inl e)
            | Inr st' \<Rightarrow> path_loop h st'))"

text \<open>
  Lines 126 to 142. The \<^verbatim>\<open>for\<close> loop over \<^verbatim>\<open>PATH_LETTERS\<close> leaves its last
  letter in the variable \<^verbatim>\<open>letter\<close>.
\<close>

definition init_state :: "helpers \<Rightarrow> surface \<Rightarrow> node \<Rightarrow> pstate" where
  "init_state h surf nd =
     (let d = (case attrs nd ''d'' of None \<Rightarrow> [] | Some v \<Rightarrow> v);
          s = normalize h (foldl (\<lambda>s c. replace_letter c s) d PATH_LETTERS)
      in \<lparr>string = s, letter = [last PATH_LETTERS], last_letter = None,
          current_point = (case ctx_point surf of None \<Rightarrow> (0, 0) | Some p \<Rightarrow> p),
          first_path_point = None,
          x1 = 0, y1 = 0, x2 = 0, y2 = 0, x3 = 0, y3 = 0,
          vertices = [],
          calls = (case ctx_point surf of None \<Rightarrow> ctx_calls surf @ [Move_to 0 0]
                   | Some p \<Rightarrow> ctx_calls surf)\<rparr>)"

definition path :: "helpers \<Rightarrow> surface \<Rightarrow> node \<Rightarrow> (error + surface \<times> node) option" where
  "path h surf nd =
     (case path_loop h (init_state h surf nd) of
        None \<Rightarrow> None
      | Some (Inl e) \<Rightarrow> Some (Inl e)
      | Some (Inr st) \<Rightarrow>
          Some (Inr (surf\<lparr>ctx_calls := calls st\<rparr>, nd\<lparr>node_vertices := Some (vertices st)\<rparr>)))"

subsection \<open>The markers (lines 15 to 121)\<close>

text \<open>
  Lines 20 to 27: the marker reference of a position (\<^verbatim>\<open>'start'\<close>, \<^verbatim>\<open>'mid'\<close>,
  \<^verbatim>\<open>'end'\<close>) is the fragment of the attribute \<^verbatim>\<open>marker-<position>\<close> when the node
  has it, and the fragment of \<^verbatim>\<open>node.get('marker', '')\<close> otherwise.
\<close>

definition marker_ref :: "helpers \<Rightarrow> node \<Rightarrow> string \<Rightarrow> string" where
  "marker_ref h nd position =
     (case attrs nd (''marker-'' @ position) of
        Some v \<Rightarrow> url_fragment h v
      | None \<Rightarrow> url_fragment h (case attrs nd ''marker'' of None \<Rightarrow> [] | Some v \<Rightarrow> v))"

text \<open>\<^verbatim>\<open>node.get(key, default)\<close>\<close>

definition get_attr :: "node \<Rightarrow> string \<Rightarrow> string \<Rightarrow> string" where
  "get_attr nd key dflt = (case attrs nd key of None \<Rightarrow> dflt | Some v \<Rightarrow> v)"

text \<open>
  Lines 37 to 45: the angle of the marker and the new values of \<^verbatim>\<open>angle1\<close>,
  \<^verbatim>\<open>angle2\<close> and \<^verbatim>\<open>position\<close>. \<^verbatim>\<open>angles\<close> is the entry popped after the
  point, or \<^verbatim>\<open>None\<close> when the list was empty; a 2-tuple is true. An angle that is
  \<^verbatim>\<open>None\<close> is \<open>None\<close> here; adding to it raises TypeError.
\<close>

definition orientation ::
  "vertex \<Rightarrow> real option \<Rightarrow> real option \<Rightarrow> string
     \<Rightarrow> error + (real option \<times> real option \<times> real option \<times> string)" where
  "orientation angles angle1 angle2 position =
     (case angles of
        Some (a0, a1) \<Rightarrow>
          if position = ''start'' then Inr (Some (pi - a0), Some a0, Some a1, position)
          else (case angle2 of
                  None \<Rightarrow> Inl TypeError
                | Some g \<Rightarrow> Inr (Some ((g + pi - a0) / 2), Some a0, Some a1, position))
      | None \<Rightarrow> Inr (angle1, angle1, angle2, ''end''))"

text \<open>Lines 101 to 117: the calls made for one child of the marker node.\<close>

definition child_calls ::
  "node \<Rightarrow> vertex \<Rightarrow> real \<Rightarrow> real \<Rightarrow> real \<Rightarrow> real \<Rightarrow> real \<Rightarrow> real
     \<Rightarrow> (real \<times> real \<times> real \<times> real) option \<Rightarrow> string \<Rightarrow> error + call list" where
  "child_calls marker_node pt angle scale scale_x scale_y translate_x translate_y clip_box child =
     (case pt of
        None \<Rightarrow> Inl TypeError
      | Some (px, py) \<Rightarrow>
          Inr ([Save, Translate px py, Rotate angle, Scale1 scale, Scale scale_x scale_y,
                Translate translate_x translate_y] @
               (case clip_box of
                  Some (bx, by, bw, bh) \<Rightarrow>
                    if get_attr marker_node ''overflow'' ''hidden'' \<in> {''hidden'', ''scroll''}
                    then [Save, Rectangle bx by bw bh, Restore, Clip] else []
                | None \<Rightarrow> []) @
               [Draw child, Restore]))"

fun children_calls ::
  "node \<Rightarrow> vertex \<Rightarrow> real \<Rightarrow> real \<Rightarrow> real \<Rightarrow> real \<Rightarrow> real \<Rightarrow> real
     \<Rightarrow> (real \<times> real \<times> real \<times> real) option \<Rightarrow> string list \<Rightarrow> error + call list" where
  "children_calls mn pt angle scale sx sy tx ty clip_box [] = Inr []"
| "children_calls mn pt angle scale sx sy tx ty clip_box (child # cs) =
     ebind (child_calls mn pt angle scale sx sy tx ty clip_box child) (\<lambda>c1.
     ebind (children_calls mn pt angle scale sx sy tx ty clip_box cs) (\<lambda>c2.
       Inr (c1 @ c2)))"

text \<open>
  Lines 52 to 83: the scale of the marker, its fit (\<open>scale_x\<close>, \<open>scale_y\<close>,
  \<open>translate_x\<close>, \<open>translate_y\<close>) and its clip box.
\<close>

definition marker_fit ::
  "helpers \<Rightarrow> surface \<Rightarrow> node
     \<Rightarrow> error + (real \<times> real \<times> real \<times> real \<times> real \<times> (real \<times> real \<times> real \<times> real) option)" where
  "marker_fit h surf marker_node =
     ebind (if attrs marker_node ''markerUnits'' = Some ''userSpaceOnUse'' then Inr 1
            else size h (get_attr (parent_node surf) ''stroke-width'' ''1'') ''xy'') (\<lambda>scale.
     ebind (node_format_viewbox h marker_node) (\<lambda>viewbox.
       if viewbox then
         ebind (preserve_ratio h marker_node) (\<lambda>(scale_x, scale_y, translate_x, translate_y).
         ebind (clip_marker_box h marker_node scale_x scale_y) (\<lambda>clip_box.
           Inr (scale, scale_x, scale_y, translate_x, translate_y, clip_box)))
       else
         ebind (size h (get_attr marker_node ''markerWidth'' ''3'') ''x'') (\<lambda>marker_width.
         ebind (size h (get_attr marker_node ''markerHeight'' ''3'') ''y'') (\<lambda>marker_height.
         ebind (calculate_bounding_box h marker_node) (\<lambda>bounding_box.
         ebind (size h (get_attr marker_node ''refX'' ''0'') ''x'') (\<lambda>ref_x.
         ebind (size h (get_attr marker_node ''refY'' ''0'') ''y'') (\<lambda>ref_y.
           case bounding_box of
             None \<Rightarrow> Inl TypeError
           | Some (bx, by, bw, bh) \<Rightarrow>
               if bw = 0 \<or> bh = 0 then Inl ZeroDivisionError
               else
                 let sc = min (marker_width / bw) (marker_height / bh)
                 in Inr (scale, sc, sc, - ref_x, - ref_y, None))))))))"

text \<open>
  Lines 89 to 96: the angle can be overridden by \<^verbatim>\<open>orient\<close>; half a turn is added
  in every case.
\<close>

definition marker_angle :: "helpers \<Rightarrow> node \<Rightarrow> real option \<Rightarrow> string \<Rightarrow> error + real" where
  "marker_angle h marker_node angle position =
     (let node_angle = get_attr marker_node ''orient'' ''0'' in
      ebind
        (if node_angle \<notin> {''auto'', ''auto-start-reverse''}
         then ebind (float_of h node_angle) (\<lambda>d. Inr (Some (radians d)))
         else if node_angle = ''auto-start-reverse'' \<and> position = ''start''
         then (case angle of None \<Rightarrow> Inl TypeError | Some a \<Rightarrow> Inr (Some (a + radians 180)))
         else Inr angle)
        (\<lambda>angle'. case angle' of None \<Rightarrow> Inl TypeError | Some a \<Rightarrow> Inr (a + radians 180)))"

text \<open>
  Lines 48 to 119: the marker of one vertex. An empty reference draws nothing. A reference
  that \<^verbatim>\<open>surface.markers.get\<close> does not find gives \<^verbatim>\<open>None\<close>, and
  \<^verbatim>\<open>marker_node.get\<close> on it raises AttributeError.
\<close>

definition draw_marker ::
  "helpers \<Rightarrow> surface \<Rightarrow> node \<Rightarrow> vertex \<Rightarrow> real option \<Rightarrow> string \<Rightarrow> call list
     \<Rightarrow> error + call list" where
  "draw_marker h surf nd pt angle position cs =
     (let marker = marker_ref h nd position in
      if marker = [] then Inr cs
      else
        (case markers surf marker of
           None \<Rightarrow> Inl AttributeError
         | Some marker_node \<Rightarrow>
             ebind (marker_fit h surf marker_node)
               (\<lambda>(scale, scale_x, scale_y, translate_x, translate_y, clip_box).
             ebind (marker_angle h marker_node angle position) (\<lambda>angle'.
             ebind (children_calls marker_node pt angle' scale scale_x scale_y
                      translate_x translate_y clip_box (children marker_node)) (\<lambda>drawn.
               Inr (cs @ [Copy_path, New_path] @ drawn @ [Append_path]))))))"

text \<open>
  One iteration of \<^verbatim>\<open>while node.vertices\<close>, after the two pops: \<open>pt\<close> is the point
  popped, \<open>angles\<close> the entry popped after it.
\<close>

definition marker_iter ::
  "helpers \<Rightarrow> surface \<Rightarrow> node \<Rightarrow> vertex \<Rightarrow> vertex \<Rightarrow> real option \<Rightarrow> real option \<Rightarrow> string
     \<Rightarrow> call list \<Rightarrow> error + (real option \<times> real option \<times> string \<times> call list)" where
  "marker_iter h surf nd pt angles angle1 angle2 position cs =
     ebind (orientation angles angle1 angle2 position) (\<lambda>(angle, angle1', angle2', position').
     ebind (draw_marker h surf nd pt angle position' cs) (\<lambda>cs'.
       Inr (angle1', angle2', (if angles \<noteq> None then ''mid'' else ''start''), cs')))"

text \<open>
  The loop \<^verbatim>\<open>while node.vertices\<close>. \<open>vs\<close> is \<^verbatim>\<open>node.vertices\<close>: each iteration
  pops the point, and the angles when an entry is left, and goes on with the rest. The
  result is the list as the loop leaves it, with the calls made. \<^verbatim>\<open>surface.draw\<close> is
  recorded as a call on the context; it is given a child of the marker and is taken not to
  change the vertices of the node.
\<close>

function marker_loop ::
  "helpers \<Rightarrow> surface \<Rightarrow> node \<Rightarrow> vertex list \<Rightarrow> real option \<Rightarrow> real option \<Rightarrow> string
     \<Rightarrow> call list \<Rightarrow> error + vertex list \<times> call list" where
  "marker_loop h surf nd vs angle1 angle2 position cs =
     (case vs of
        [] \<Rightarrow> Inr (vs, cs)
      | pt # vs1 \<Rightarrow>
          (case vs1 of
             [] \<Rightarrow>
               ebind (marker_iter h surf nd pt None angle1 angle2 position cs)
                 (\<lambda>(angle1', angle2', position', cs').
                    marker_loop h surf nd vs1 angle1' angle2' position' cs')
           | angles # vs2 \<Rightarrow>
               ebind (marker_iter h surf nd pt angles angle1 angle2 position cs)
                 (\<lambda>(angle1', angle2', position', cs').
                    marker_loop h surf nd vs2 angle1' angle2' position' cs')))"
  by pat_completeness auto
termination
  by (relation "measure (\<lambda>(h, surf, nd, vs, angle1, angle2, position, cs). length vs)") auto

text \<open>
  \<^verbatim>\<open>draw_markers\<close>: nothing happens when the node has no vertices; otherwise the loop
  runs on \<^verbatim>\<open>node.vertices\<close>, and the node keeps the list the loop has left.
\<close>

definition draw_markers :: "helpers \<Rightarrow> surface \<Rightarrow> node \<Rightarrow> error + surface \<times> node" where
  "draw_markers h surf nd =
     (case node_vertices nd of
        None \<Rightarrow> Inr (surf, nd)
      | Some [] \<Rightarrow> Inr (surf, nd)
      | Some (v # vs) \<Rightarrow>
          ebind (marker_loop h surf nd (v # vs) None None ''start'' (ctx_calls surf))
            (\<lambda>(vs', cs). Inr (surf\<lparr>ctx_calls := cs\<rparr>, nd\<lparr>node_vertices := Some vs'\<rparr>)))"

subsection \<open>An instance of the helpers\<close>

text \<open>
  Modelled from the spec: the helpers of helpers.py, url.py and bounding_box.py (not in the
  sources at hand), as far as the examples below need them. The spec describes them as a
  tokenizer that yields "a normalized, whitespace-delimited token stream" in which "numbers
  may run together without a separating space when a sign ... starts a new number", as
  "length/unit parsing (\<^verbatim>\<open>size\<close>)", and as vector helpers that "rotate a point by an
  angle, compute the angle of a vector, elevate a quadratic Bezier to cubic control points"
  by "the standard 2/3 control-point rule". The instance covers plain decimal numerals
  (a sign, digits, a decimal point); on any other number it answers \<open>HelperError\<close>. It
  takes the zero displacement of \<^verbatim>\<open>v\<close> for negative when its text begins with a
  minus sign, and the zero difference of \<^verbatim>\<open>V\<close> for positive (the difference of two
  equal floats is the positive zero, but for \<^verbatim>\<open>-0.0 - 0.0\<close>).
\<close>

definition digit_of :: "char \<Rightarrow> nat option" where
  "digit_of c = (case int_of_char c of Inl e \<Rightarrow> None | Inr i \<Rightarrow> Some (nat i))"

fun nat_of_digits :: "nat \<Rightarrow> string \<Rightarrow> nat option" where
  "nat_of_digits acc [] = Some acc"
| "nat_of_digits acc (c # cs) =
     (case digit_of c of None \<Rightarrow> None | Some d \<Rightarrow> nat_of_digits (10 * acc + d) cs)"

definition unsigned_of :: "string \<Rightarrow> real option" where
  "unsigned_of s =
     (let ip = takeWhile (\<lambda>c. c \<noteq> CHR ''.'') s;
          fp = drop 1 (dropWhile (\<lambda>c. c \<noteq> CHR ''.'') s)
      in if ip @ fp = [] then None
         else (case (nat_of_digits 0 ip, nat_of_digits 0 fp) of
                 (Some a, Some b) \<Rightarrow> Some (real a + real b / 10 ^ length fp)
               | _ \<Rightarrow> None))"

definition std_float :: "string \<Rightarrow> error + real" where
  "std_float s =
     (case s of
        [] \<Rightarrow> Inl HelperError
      | c # cs \<Rightarrow>
          if c = CHR ''-''
          then (case unsigned_of cs of None \<Rightarrow> Inl HelperError | Some v \<Rightarrow> Inr (- v))
          else (case unsigned_of s of None \<Rightarrow> Inl HelperError | Some v \<Rightarrow> Inr v))"

definition std_size :: "string \<Rightarrow> string \<Rightarrow> error + real" where
  "std_size s reference = (if s = [] then Inr 0 else std_float s)"

definition std_point :: "string \<Rightarrow> error + (real \<times> real \<times> string)" where
  "std_point s =
     (case split1 s of
        (a, None) \<Rightarrow> Inl PointError
      | (a, Some r) \<Rightarrow>
          (case split1 r of
             (b, r') \<Rightarrow>
               ebind (std_size a ''x'') (\<lambda>x.
               ebind (std_size b ''y'') (\<lambda>y.
                 Inr (x, y, case r' of None \<Rightarrow> [] | Some t \<Rightarrow> t)))))"

fun sep_minus :: "bool \<Rightarrow> string \<Rightarrow> string" where
  "sep_minus after_e [] = []"
| "sep_minus after_e (c # cs) =
     (if c = CHR ''-'' \<and> \<not> after_e then CHR '' '' # c # sep_minus False cs
      else c # sep_minus (c = CHR ''e'') cs)"

definition is_sep :: "char \<Rightarrow> bool" where
  "is_sep c = (c \<in> set [CHR '' '', CHR 0x0A, CHR 0x0D, CHR 0x09, CHR '','']) "

fun collapse :: "bool \<Rightarrow> string \<Rightarrow> string" where
  "collapse in_run [] = []"
| "collapse in_run (c # cs) =
     (if is_sep c then (if in_run then collapse True cs else CHR '' '' # collapse True cs)
      else c # collapse False cs)"

definition std_normalize :: "string \<Rightarrow> string" where
  "std_normalize s =
     strip (collapse False (sep_minus False (map (\<lambda>c. if c = CHR ''E'' then CHR ''e'' else c) s)))"

text \<open>\<^verbatim>\<open>math.atan2\<close> on reals.\<close>

definition atan2 :: "real \<Rightarrow> real \<Rightarrow> real" where
  "atan2 y x =
     (if x > 0 then arctan (y / x)
      else if x < 0 \<and> y \<ge> 0 then arctan (y / x) + pi
      else if x < 0 then arctan (y / x) - pi
      else if y > 0 then pi / 2
      else if y < 0 then - pi / 2
      else 0)"

definition std_point_angle :: "real \<Rightarrow> real \<Rightarrow> real \<Rightarrow> real \<Rightarrow> real" where
  "std_point_angle cx cy px py = atan2 (py - cy) (px - cx)"

definition std_rotate :: "real \<Rightarrow> real \<Rightarrow> real \<Rightarrow> real \<times> real" where
  "std_rotate x y angle = (x * cos angle - y * sin angle, y * cos angle + x * sin angle)"

definition std_quadratic_points ::
  "real \<Rightarrow> real \<Rightarrow> real \<Rightarrow> real \<Rightarrow> real \<Rightarrow> real \<Rightarrow> real \<times> real \<times> real \<times> real \<times> real \<times> real" where
  "std_quadratic_points a1 b1 a2 b2 a3 b3 =
     (a2 * 2 / 3 + a1 / 3, b2 * 2 / 3 + b1 / 3, a2 * 2 / 3 + a3 / 3, b2 * 2 / 3 + b3 / 3, a3, b3)"

definition digit_char :: "nat \<Rightarrow> char" where
  "digit_char n = ''0123456789'' ! n"

fun show_nat :: "nat \<Rightarrow> string" where
  "show_nat n =
     (if n < 10 then [digit_char n]
      else show_nat (n div 10) @ [digit_char (n mod 10)])"

text \<open>
  The text of a float with an integral value, as Python prints it (\<^verbatim>\<open>5.0\<close>,
  \<^verbatim>\<open>-3.0\<close>); other values do not occur in the examples and are given as \<^verbatim>\<open>nan\<close>.
\<close>

definition std_float_str :: "real \<Rightarrow> string" where
  "std_float_str x =
     (if x = of_int \<lfloor>x\<rfloor>
      then (if x < 0 then ''-'' else []) @ show_nat (nat \<bar>\<lfloor>x\<rfloor>\<bar>) @ ''.0''
      else ''nan'')"

text \<open>The fragment of \<^verbatim>\<open>url(#name)\<close> or \<^verbatim>\<open>#name\<close> is \<^verbatim>\<open>name\<close>.\<close>

definition std_url_fragment :: "string \<Rightarrow> string" where
  "std_url_fragment s =
     takeWhile (\<lambda>c. c \<noteq> CHR '')'') (drop 1 (dropWhile (\<lambda>c. c \<noteq> CHR ''#'') s))"

definition std :: helpers where
  "std = \<lparr>normalize = std_normalize, point = std_point, size = std_size,
          point_angle = std_point_angle, rotate = std_rotate,
          quadratic_points = std_quadratic_points,
          float_of = std_float, float_str = std_float_str,
          negative_zero = (\<lambda>st. letter st = ''v'' \<and> take 1 (string st) = ''-''),
          url_fragment = std_url_fragment,
          node_format_viewbox = (\<lambda>n. Inr (attrs n ''viewBox'' \<noteq> None)),
          preserve_ratio = (\<lambda>n. Inl HelperError),
          clip_marker_box = (\<lambda>n sx sy. Inl HelperError),
          calculate_bounding_box = (\<lambda>n. Inr (Some (0, 0, 3, 3)))\<rparr>"

text \<open>A surface with a fresh context and a node with the path data \<open>d\<close>.\<close>

definition empty_node :: node where
  "empty_node = \<lparr>attrs = Map.empty, children = [], node_vertices = None\<rparr>"

definition fresh_surface :: surface where
  "fresh_surface = \<lparr>ctx_point = None, ctx_calls = [], markers = Map.empty,
                    parent_node = empty_node\<rparr>"

definition path_node :: "string \<Rightarrow> node" where
  "path_node d = empty_node\<lparr>attrs := [''d'' \<mapsto> d]\<rparr>"

text \<open>
  A state of the loop in the middle of a path: the string that is left, the letter and the
  last letter, the current point and the vertices so far; nothing carried over from a curve
  and no call made yet.
\<close>

definition demo_state ::
  "string \<Rightarrow> string \<Rightarrow> string option \<Rightarrow> real \<times> real \<Rightarrow> vertex list \<Rightarrow> pstate" where
  "demo_state s l ll p vs =
     \<lparr>string = s, letter = l, last_letter = ll, current_point = p,
      first_path_point = None, x1 = 0, y1 = 0, x2 = 0, y2 = 0, x3 = 0, y3 = 0,
      vertices = vs, calls = []\<rparr>"

text \<open>
  A surface on which the marker \<^verbatim>\<open>dot\<close> is defined: it follows the path
  (\<^verbatim>\<open>orient="auto"\<close>) and has one child.
\<close>

definition dot_surface :: surface where
  "dot_surface = fresh_surface\<lparr>markers :=
     [''dot'' \<mapsto> empty_node\<lparr>attrs := [''orient'' \<mapsto> ''auto''], children := [''circle'']\<rparr>]\<rparr>"

section \<open>Properties\<close>

subsection \<open>Unfolding the model on concrete inputs\<close>

lemmas prim_defs = ebind_def strip_def is_space_def replace_letter_def int_of_char_def
  radians_def hypot_def copysign_def PATH_LETTERS_def Let_def

lemmas step_defs = fetch_def finish_def command_def path_step_def cmd_a_def cmd_c_def cmd_C_def
  cmd_h_def cmd_H_def cmd_l_def cmd_L_def cmd_m_def cmd_M_def cmd_q_def cmd_Q_def cmd_s_def
  cmd_S_def cmd_t_def cmd_T_def cmd_v_def cmd_V_def cmd_z_def break_before_move_def
  degenerate_arc_def arc_convert_def arc_centre_def arc_args_def

lemmas std_defs = std_def std_normalize_def std_point_def std_size_def std_float_def
  unsigned_of_def digit_of_def is_sep_def atan2_def std_point_angle_def std_rotate_def
  std_quadratic_points_def std_float_str_def std_url_fragment_def digit_char_def arctan_one

lemmas marker_defs = marker_ref_def get_attr_def orientation_def child_calls_def marker_fit_def
  marker_angle_def draw_marker_def marker_iter_def draw_markers_def

lemmas env_defs = fresh_surface_def path_node_def empty_node_def

lemmas path_defs = path_def path_loop.simps init_state_def

lemma ebind_simps [simp]: "ebind (Inl e) f = Inl e" "ebind (Inr x) f = f x"
  by (simp_all add: ebind_def)

declare marker_loop.simps [simp del]

lemma marker_loop_nil [simp]: "marker_loop h surf nd [] angle1 angle2 position cs = Inr ([], cs)"
  by (subst marker_loop.simps) simp

lemma marker_loop_last [simp]:
  "marker_loop h surf nd [pt] angle1 angle2 position cs =
     ebind (marker_iter h surf nd pt None angle1 angle2 position cs)
       (\<lambda>(angle1', angle2', position', cs'). Inr ([], cs'))"
  by (subst marker_loop.simps) (simp add: split_def)

lemma marker_loop_pair [simp]:
  "marker_loop h surf nd (pt # angles # vs) angle1 angle2 position cs =
     ebind (marker_iter h surf nd pt angles angle1 angle2 position cs)
       (\<lambda>(angle1', angle2', position', cs').
          marker_loop h surf nd vs angle1' angle2' position' cs')"
  by (subst marker_loop.simps) simp

subsection \<open>The markers consume the vertices\<close>

text \<open>
  The loop ends on the empty list only: whatever it returns, no vertex is left.
\<close>

lemma marker_loop_consumes:
  "marker_loop h surf nd vs angle1 angle2 position cs = Inr (vs', cs') \<Longrightarrow> vs' = []"
proof (induction vs arbitrary: angle1 angle2 position cs rule: induct_list012)
  case 1
  then show ?case by simp
next
  case (2 pt)
  then show ?case
    by (cases "marker_iter h surf nd pt None angle1 angle2 position cs") auto
next
  case (3 pt angles vs)
  then show ?case
    by (cases "marker_iter h surf nd pt angles angle1 angle2 position cs") auto
qed

text \<open>
  Claim C10. \<^verbatim>\<open>draw_markers\<close> consumes the vertices of the node: when the node has at
  least one vertex and the call returns, \<^verbatim>\<open>node.vertices\<close> is empty afterwards and a
  second call on the results returns them unchanged (no call reaches the context); and
  when \<^verbatim>\<open>node.vertices\<close> is absent or empty the call returns at once, the surface and the
  node unchanged.
\<close>

theorem draw_markers_consumes_vertices:
  "(\<forall>surf' nd'. node_vertices nd = Some (v # vs) \<and> draw_markers h surf nd = Inr (surf', nd')
       \<longrightarrow> node_vertices nd' = Some [] \<and> draw_markers h surf' nd' = Inr (surf', nd'))
   \<and> (node_vertices nd = None \<or> node_vertices nd = Some []
       \<longrightarrow> draw_markers h surf nd = Inr (surf, nd))"
proof (intro conjI allI impI)
  fix surf' nd'
  assume a: "node_vertices nd = Some (v # vs) \<and> draw_markers h surf nd = Inr (surf', nd')"
  then obtain vs' cs
    where loop: "marker_loop h surf nd (v # vs) None None ''start'' (ctx_calls surf) = Inr (vs', cs)"
      and nd': "nd' = nd\<lparr>node_vertices := Some vs'\<rparr>"
      and "surf' = surf\<lparr>ctx_calls := cs\<rparr>"
    by (cases "marker_loop h surf nd (v # vs) None None ''start'' (ctx_calls surf)")
       (auto simp: draw_markers_def)
  from marker_loop_consumes [OF loop] nd' have e: "nd' = nd\<lparr>node_vertices := Some []\<rparr>"
    by simp
  show "node_vertices nd' = Some []" using e by simp
  show "draw_markers h surf' nd' = Inr (surf', nd')" using e by (simp add: draw_markers_def)
next
  assume "node_vertices nd = None \<or> node_vertices nd = Some []"
  then show "draw_markers h surf nd = Inr (surf, nd)"
    by (auto simp: draw_markers_def)
qed

text \<open>
  The vertices of \<^verbatim>\<open>M0 0 L10 0\<close> on a node with \<^verbatim>\<open>marker="url(#dot)"\<close>: the first
  call draws the marker at both ends and leaves no vertex; the second call, on the surface
  and the node the first call has left, makes no call. A node that never had vertices is
  returned at once.
\<close>

theorem draw_markers_consumes_vertices_witness:
  "draw_markers std dot_surface
     (empty_node\<lparr>attrs := [''marker'' \<mapsto> ''url(#dot)''],
                 node_vertices := Some [Some (0, 0), Some (pi, 0), Some (10, 0)]\<rparr>)
     = Inr (dot_surface\<lparr>ctx_calls :=
              [Copy_path, New_path, Save, Translate 0 0, Rotate pi,
               Scale1 1, Scale 1 1, Translate 0 0, Draw ''circle'', Restore, Append_path,
               Copy_path, New_path, Save, Translate 10 0, Rotate (pi + pi),
               Scale1 1, Scale 1 1, Translate 0 0, Draw ''circle'', Restore, Append_path]\<rparr>,
            empty_node\<lparr>attrs := [''marker'' \<mapsto> ''url(#dot)''], node_vertices := Some []\<rparr>)
   \<and> draw_markers std
       (dot_surface\<lparr>ctx_calls :=
              [Copy_path, New_path, Save, Translate 0 0, Rotate pi,
               Scale1 1, Scale 1 1, Translate 0 0, Draw ''circle'', Restore, Append_path,
               Copy_path, New_path, Save, Translate 10 0, Rotate (pi + pi),
               Scale1 1, Scale 1 1, Translate 0 0, Draw ''circle'', Restore, Append_path]\<rparr>)
       (empty_node\<lparr>attrs := [''marker'' \<mapsto> ''url(#dot)''], node_vertices := Some []\<rparr>)
     = Inr (dot_surface\<lparr>ctx_calls :=
              [Copy_path, New_path, Save, Translate 0 0, Rotate pi,
               Scale1 1, Scale 1 1, Translate 0 0, Draw ''circle'', Restore, Append_path,
               Copy_path, New_path, Save, Translate 10 0, Rotate (pi + pi),
               Scale1 1, Scale 1 1, Translate 0 0, Draw ''circle'', Restore, Append_path]\<rparr>,
            empty_node\<lparr>attrs := [''marker'' \<mapsto> ''url(#dot)''], node_vertices := Some []\<rparr>)
   \<and> draw_markers std fresh_surface empty_node = Inr (fresh_surface, empty_node)"
proof -
  let ?nd = "empty_node\<lparr>attrs := [''marker'' \<mapsto> ''url(#dot)''],
                 node_vertices := Some [Some (0, 0), Some (pi, 0), Some (10, 0)]\<rparr>"
  let ?nd' = "empty_node\<lparr>attrs := [''marker'' \<mapsto> ''url(#dot)''], node_vertices := Some []\<rparr>"
  let ?surf' = "dot_surface\<lparr>ctx_calls :=
              [Copy_path, New_path, Save, Translate 0 0, Rotate pi,
               Scale1 1, Scale 1 1, Translate 0 0, Draw ''circle'', Restore, Append_path,
               Copy_path, New_path, Save, Translate 10 0, Rotate (pi + pi),
               Scale1 1, Scale 1 1, Translate 0 0, Draw ''circle'', Restore, Append_path]\<rparr>"
  have vs: "node_vertices ?nd = Some (Some (0, 0) # [Some (pi, 0), Some (10, 0)])"
    by simp
  have run: "draw_markers std dot_surface ?nd = Inr (?surf', ?nd')"
    by (simp add: marker_defs dot_surface_def env_defs prim_defs std_defs)
  note t = draw_markers_consumes_vertices
    [of ?nd "Some (0, 0)" "[Some (pi, 0), Some (10, 0)]" std dot_surface]
  from t vs run have again: "draw_markers std ?surf' ?nd' = Inr (?surf', ?nd')"
    by blast
  have "node_vertices empty_node = None" by (simp add: empty_node_def)
  with draw_markers_consumes_vertices [of empty_node "Some (0, 0)" "[]" std fresh_surface]
  have "draw_markers std fresh_surface empty_node = Inr (fresh_surface, empty_node)" by blast
  with run again show ?thesis by blast
qed

subsection \<open>Reading the command letter\<close>

lemma fetch_shape:
  assumes "fetch st = Inr st1"
  shows "\<exists>r l f vs. st1 = st\<lparr>string := r, letter := l, first_path_point := f, vertices := vs\<rparr> \<and>
           (vs = vertices st \<or>
            vs = vertices st @ [Some (current_point st)] \<and>
            last_letter st \<in> {None, Some ''z'', Some ''Z''} \<and> \<not> py_in l ''mM'') \<and>
           (l = ''M'' \<or> l = ''m'' \<longrightarrow> vs = vertices st)"
proof -
  define s where "s = strip (string st)"
  define a where "a = (if py_in (fst (split1 s)) PATH_LETTERS then
           (case split1 (s @ '' '') of
              (l, None) \<Rightarrow> Inl ValueError
            | (l, Some r) \<Rightarrow>
                if last_letter st \<in> {None, Some ''z'', Some ''Z''} \<and> \<not> py_in l ''mM''
                then Inr (st\<lparr>string := r, letter := l,
                              first_path_point := Some (current_point st),
                              vertices := vertices st @ [Some (current_point st)]\<rparr>)
                else Inr (st\<lparr>string := r, letter := l\<rparr>))
         else if letter st = ''M'' then Inr (st\<lparr>string := s, letter := ''L''\<rparr>)
         else if letter st = ''m'' then Inr (st\<lparr>string := s, letter := ''l''\<rparr>)
         else Inr (st\<lparr>string := s\<rparr>))"
  have f: "fetch st = ebind a (\<lambda>st1.
           let st2 = (if last_letter st1 \<in> {None, Some ''m'', Some ''M'', Some ''z'', Some ''Z''}
                      then st1\<lparr>first_path_point := None\<rparr> else st1)
           in Inr (if letter st2 \<notin> {''m'', ''M'', ''z'', ''Z''} \<and> first_path_point st2 = None
                   then st2\<lparr>first_path_point := Some (current_point st2)\<rparr> else st2))"
    unfolding fetch_def a_def s_def Let_def ..
  from assms f obtain sa where a: "a = Inr sa"
    by (cases a) simp_all
  have sa: "\<exists>r l f vs. sa = st\<lparr>string := r, letter := l, first_path_point := f, vertices := vs\<rparr> \<and>
           (vs = vertices st \<or>
            vs = vertices st @ [Some (current_point st)] \<and>
            last_letter st \<in> {None, Some ''z'', Some ''Z''} \<and> \<not> py_in l ''mM'') \<and>
           (l = ''M'' \<or> l = ''m'' \<longrightarrow> vs = vertices st)"
  proof (cases "py_in (fst (split1 s)) PATH_LETTERS")
    case True
    obtain l ro where sp: "split1 (s @ '' '') = (l, ro)" by (cases "split1 (s @ '' '')")
    show ?thesis
    proof (cases ro)
      case None
      with a True sp show ?thesis by (simp add: a_def)
    next
      case (Some r)
      show ?thesis
      proof (cases "last_letter st \<in> {None, Some ''z'', Some ''Z''} \<and> \<not> py_in l ''mM''")
        case t: True
        then have nl: "l \<noteq> ''M''" "l \<noteq> ''m''" by auto
        from t a True sp Some
        have "sa = st\<lparr>string := r, letter := l,
                              first_path_point := Some (current_point st),
                              vertices := vertices st @ [Some (current_point st)]\<rparr>"
          by (auto simp add: a_def simp del: py_in.simps)
        with t nl show ?thesis by blast
      next
        case f: False
        with a True sp Some have "sa = st\<lparr>string := r, letter := l\<rparr>"
          by (auto simp add: a_def simp del: py_in.simps)
        then have "sa = st\<lparr>string := r, letter := l, first_path_point := first_path_point st, vertices := vertices st\<rparr>"
          by simp
        then show ?thesis by blast
      qed
    qed
  next
    case False
    with a have "sa = st\<lparr>string := s, letter := ''L''\<rparr> \<or> sa = st\<lparr>string := s, letter := ''l''\<rparr>
                 \<or> (sa = st\<lparr>string := s\<rparr> \<and> letter st \<noteq> ''M'' \<and> letter st \<noteq> ''m'')"
      by (simp add: a_def split: if_splits)
    then consider "sa = st\<lparr>string := s, letter := ''L'', first_path_point := first_path_point st, vertices := vertices st\<rparr>"
      | "sa = st\<lparr>string := s, letter := ''l'', first_path_point := first_path_point st, vertices := vertices st\<rparr>"
      | "sa = st\<lparr>string := s, letter := letter st, first_path_point := first_path_point st, vertices := vertices st\<rparr>"
         "letter st \<noteq> ''M''" "letter st \<noteq> ''m''"
      by auto
    then show ?thesis
    proof cases
      case 1 then show ?thesis by blast
    next
      case 2 then show ?thesis by blast
    next
      case 3 then show ?thesis by blast
    qed
  qed
  then obtain r l fp vs where sa': "sa = st\<lparr>string := r, letter := l, first_path_point := fp, vertices := vs\<rparr>"
    and vs: "(vs = vertices st \<or>
            vs = vertices st @ [Some (current_point st)] \<and>
            last_letter st \<in> {None, Some ''z'', Some ''Z''} \<and> \<not> py_in l ''mM'') \<and>
           (l = ''M'' \<or> l = ''m'' \<longrightarrow> vs = vertices st)" by blast
  from assms f a have "st1 = sa\<lparr>first_path_point := first_path_point st1\<rparr>"
    by (auto simp: Let_def split: if_splits)
  then obtain fp' where "st1 = sa\<lparr>first_path_point := fp'\<rparr>" ..
  with sa' have "st1 = st\<lparr>string := r, letter := l, first_path_point := fp', vertices := vs\<rparr>"
    by simp
  with vs show ?thesis by blast
qed

lemma fetch_frame:
  assumes "fetch st = Inr st1"
  shows "current_point st1 = current_point st" and "calls st1 = calls st"
    and "last_letter st1 = last_letter st"
    and "x1 st1 = x1 st" and "y1 st1 = y1 st" and "x2 st1 = x2 st" and "y2 st1 = y2 st"
    and "x3 st1 = x3 st" and "y3 st1 = y3 st"
  using fetch_shape [OF assms] by auto

lemma fetch_vertices_move:
  assumes "fetch st = Inr st1" and "letter st1 = ''M'' \<or> letter st1 = ''m''"
  shows "vertices st1 = vertices st"
  using fetch_shape [OF assms(1)] assms(2) by auto

lemma fetch_vertices_inside:
  assumes "fetch st = Inr st1" and "last_letter st \<notin> {None, Some ''z'', Some ''Z''}"
  shows "vertices st1 = vertices st"
  using fetch_shape [OF assms(1)] assms(2) by auto

lemma split1_append_space: "fst (split1 (s @ '' '')) = fst (split1 s)"
  by (induction s) (auto split: prod.splits)

lemma py_in_zZ: "py_in l ''zZ'' \<longleftrightarrow> l \<in> {[], ''z'', ''Z'', ''zZ''}"
proof (cases l)
  case Nil
  then show ?thesis by simp
next
  case l1: (Cons c cs)
  show ?thesis
  proof (cases cs)
    case Nil
    with l1 show ?thesis by auto
  next
    case l2: (Cons d ds)
    show ?thesis
    proof (cases ds)
      case Nil
      with l1 l2 show ?thesis by auto
    next
      case (Cons e es)
      with l1 l2 show ?thesis by simp
    qed
  qed
qed

lemma break_before_move_iff:
  "break_before_move ll \<longleftrightarrow> ll \<notin> {None, Some [], Some ''z'', Some ''Z'', Some ''zZ''}"
  by (cases ll) (auto simp: break_before_move_def py_in_zZ simp del: py_in.simps)

subsection \<open>The subpath break before a moveto\<close>

text \<open>
  Claim C9, amended. For every moveto (\<^verbatim>\<open>M\<close> or \<^verbatim>\<open>m\<close> read as a letter of the
  string) whose point parses, the iteration appends a subpath break (\<^verbatim>\<open>None\<close>) to the
  vertices exactly when a command was executed before it and that command was not a
  closepath (\<^verbatim>\<open>last_letter\<close> is a non-empty letter outside \<^verbatim>\<open>'zZ'\<close>); the break
  comes before the new current point, which is appended after it. After a closepath, and as
  the first command, no break is appended.
\<close>

theorem moveto_subpath_break:
  assumes "fetch st = Inr st1" and "letter st1 = ''M'' \<or> letter st1 = ''m''"
    and "point h (string st1) = Inr (x, y, s)"
  shows "\<exists>st'. path_step h st = Inr st' \<and>
     vertices st' = vertices st @
        (if last_letter st \<in> {None, Some [], Some ''z'', Some ''Z'', Some ''zZ''} then [] else [None]) @
        [Some (current_point st')] \<and>
     current_point st' = (if letter st1 = ''M'' then (x, y)
        else (fst (current_point st) + x, snd (current_point st) + y)) \<and>
     calls st' = calls st @ [if letter st1 = ''M'' then Move_to x y else Rel_move_to x y] \<and>
     last_letter st' = Some (letter st1)"
proof -
  note fr = fetch_frame [OF assms(1)] fetch_vertices_move [OF assms(1,2)]
  have b: "break_before_move (last_letter st1)
     = (last_letter st \<notin> {None, Some [], Some ''z'', Some ''Z'', Some ''zZ''})"
    using break_before_move_iff [of "last_letter st1"] fr(3) by simp
  from assms(2) show ?thesis
  proof
    assume l: "letter st1 = ''M''"
    have "command h st1 = Inr (finish (st1\<lparr>string := s,
         vertices := (if break_before_move (last_letter st1) then vertices st1 @ [None]
                      else vertices st1),
         calls := calls st1 @ [Move_to x y],
         current_point := (x, y)\<rparr>))"
      using assms(3) l by (simp add: command_def cmd_M_def Let_def)
    then show ?thesis
      using l fr b by (simp add: path_step_def assms(1) finish_def del: insert_iff)
  next
    assume l: "letter st1 = ''m''"
    have "command h st1 = Inr (finish (st1\<lparr>string := s,
         vertices := (if break_before_move (last_letter st1) then vertices st1 @ [None]
                      else vertices st1),
         calls := calls st1 @ [Rel_move_to x y],
         current_point := (fst (current_point st1) + x, snd (current_point st1) + y)\<rparr>))"
      using assms(3) l by (simp add: command_def cmd_m_def Let_def)
    then show ?thesis
      using l fr b by (simp add: path_step_def assms(1) finish_def del: insert_iff)
  qed
qed

text \<open>
  A moveto after \<^verbatim>\<open>M0 0 L1 1\<close>: the break is appended, then the new point.
\<close>

theorem moveto_subpath_break_witness:
  "\<exists>st'. path_step std (demo_state ''M 5 5'' ''L'' (Some ''L'') (1, 1) [Some (0, 0), Some (3 * pi / 4, pi / 4), Some (1, 1)]) = Inr st'
     \<and> vertices st' = [Some (0, 0), Some (3 * pi / 4, pi / 4), Some (1, 1), None, Some (5, 5)]
     \<and> current_point st' = (5, 5) \<and> calls st' = [Move_to 5 5]"
proof -
  let ?st = "demo_state ''M 5 5'' ''L'' (Some ''L'') (1, 1) [Some (0, 0), Some (3 * pi / 4, pi / 4), Some (1, 1)]"
  let ?st1 = "?st\<lparr>string := ''5 5 '', letter := ''M''\<rparr>"
  have f: "fetch ?st = Inr ?st1"
    by (simp add: demo_state_def fetch_def prim_defs)
  have l: "letter ?st1 = ''M'' \<or> letter ?st1 = ''m''" by simp
  have p: "point std (string ?st1) = Inr (5, 5, [])"
    by (simp add: std_defs prim_defs)
  from moveto_subpath_break [OF f l p] show ?thesis
    by (auto simp: demo_state_def)
qed

text \<open>
  The claim as stated (a break before every moveto that is not the first command) fails
  after a closepath: in \<^verbatim>\<open>M0 0 L1 1 Z M5 5\<close> the only \<^verbatim>\<open>None\<close> is the one of the
  closepath, and the \<^verbatim>\<open>M\<close> appends its point only.
\<close>

theorem moveto_after_closepath_counterexample:
  "path std fresh_surface (path_node ''M0 0 L1 1 Z M5 5'') =
     Some (Inr (fresh_surface\<lparr>ctx_calls := [Move_to 0 0, Move_to 0 0, Line_to 1 1, Close_path, Move_to 5 5]\<rparr>,
                (path_node ''M0 0 L1 1 Z M5 5'')\<lparr>node_vertices :=
                   Some [Some (0, 0), Some (3 * pi / 4, pi / 4), Some (1, 1), None, Some (5, 5)]\<rparr>))"
  by (simp add: path_defs env_defs prim_defs std_defs step_defs)

subsection \<open>A closepath before any moveto\<close>

text \<open>
  Claim C2. The spec wants a leading closepath to append nothing to the vertices. On the
  spec's own input \<^verbatim>\<open>Z M10 10 L20 20\<close> (a fresh context, so the current point is the
  origin) the code makes no close-path call and leaves the current point alone, but it
  appends the current point to the vertices: lines 148 to 150 append it for every first
  letter that is not a moveto. The vertices begin with two points in a row. The second
  conjunct is the first iteration alone, for any helpers and any current point.
\<close>

theorem leading_closepath_appends_vertex:
  "path std fresh_surface (path_node ''Z M10 10 L20 20'') =
     Some (Inr (fresh_surface\<lparr>ctx_calls := [Move_to 0 0, Move_to 10 10, Line_to 20 20]\<rparr>,
                (path_node ''Z M10 10 L20 20'')\<lparr>node_vertices :=
                   Some [Some (0, 0), Some (10, 10), Some (3 * pi / 4, pi / 4), Some (20, 20)]\<rparr>))
   \<and> path_step h (demo_state ''Z M 10 10 L 20 20'' ''Z'' None p []) =
       Inr ((demo_state ''M 10 10 L 20 20'' ''Z'' (Some ''Z'') p [Some p]))"
  by (simp add: path_defs env_defs prim_defs std_defs step_defs demo_state_def)

subsection \<open>The smooth cubic\<close>

text \<open>
  Claim C7. As the first command of a path, \<^verbatim>\<open>S\<close> and \<^verbatim>\<open>s\<close> raise TypeError:
  \<^verbatim>\<open>last_letter\<close> is \<^verbatim>\<open>None\<close>, and \<^verbatim>\<open>None in 'csCS'\<close> is not defined. The claim
  gives such a command the current point as its first control point.
\<close>

theorem smooth_cubic_first_raises:
  "path std fresh_surface (path_node ''S30 20 40 10'') = Some (Inl TypeError)
   \<and> path_step h (demo_state ''S 30 20 40 10'' ''Z'' None p []) = Inl TypeError
   \<and> path_step h (demo_state ''s 30 20 40 10'' ''Z'' None p []) = Inl TypeError"
  by (simp add: path_defs env_defs prim_defs std_defs step_defs demo_state_def)

subsection \<open>The tangent pair of a straight line\<close>

text \<open>
  Claim C4. A vertical line command records the pair \<open>(- angle, angle)\<close>, not
  \<open>(pi - angle, angle)\<close>: for \<^verbatim>\<open>M0 0 v10\<close> the pair is \<open>(- pi / 2, pi / 2)\<close>, whose
  sum is 0, while the same segment written \<^verbatim>\<open>M0 0 l0 10\<close> records
  \<open>(pi / 2, pi / 2)\<close>.
\<close>

theorem vertical_line_tangent_pair:
  "path std fresh_surface (path_node ''M0 0 v10'') =
     Some (Inr (fresh_surface\<lparr>ctx_calls := [Move_to 0 0, Move_to 0 0, Rel_line_to 0 10]\<rparr>,
                (path_node ''M0 0 v10'')\<lparr>node_vertices :=
                   Some [Some (0, 0), Some (- (pi / 2), pi / 2), Some (0, 10)]\<rparr>))
   \<and> path std fresh_surface (path_node ''M0 0 l0 10'') =
     Some (Inr (fresh_surface\<lparr>ctx_calls := [Move_to 0 0, Move_to 0 0, Rel_line_to 0 10]\<rparr>,
                (path_node ''M0 0 l0 10'')\<lparr>node_vertices :=
                   Some [Some (0, 0), Some (pi / 2, pi / 2), Some (0, 10)]\<rparr>))
   \<and> - (pi / 2) + pi / 2 \<noteq> pi"
  by (simp add: path_defs env_defs prim_defs std_defs step_defs)

subsection \<open>The arc with a zero radius\<close>

text \<open>
  Claim C6. As the first command, an arc with a zero radius does not leave the vertices its
  relative line leaves: the iteration of the arc appends the current point and ends by
  \<^verbatim>\<open>continue\<close>, so \<^verbatim>\<open>last_letter\<close> is still \<^verbatim>\<open>None\<close> when the rewritten
  \<^verbatim>\<open>l\<close> is read, and the current point is appended a second time.
\<close>

theorem degenerate_arc_first_command:
  "path std fresh_surface (path_node ''A0 0 0 0 0 5 5'') =
     Some (Inr (fresh_surface\<lparr>ctx_calls := [Move_to 0 0, Set_tolerance (1 / 100000), Rel_line_to 5 5]\<rparr>,
                (path_node ''A0 0 0 0 0 5 5'')\<lparr>node_vertices :=
                   Some [Some (0, 0), Some (0, 0), Some (3 * pi / 4, pi / 4), Some (5, 5)]\<rparr>))
   \<and> path std fresh_surface (path_node ''l5 5'') =
     Some (Inr (fresh_surface\<lparr>ctx_calls := [Move_to 0 0, Rel_line_to 5 5]\<rparr>,
                (path_node ''l5 5'')\<lparr>node_vertices :=
                   Some [Some (0, 0), Some (3 * pi / 4, pi / 4), Some (5, 5)]\<rparr>))"
  by (simp add: path_defs env_defs prim_defs std_defs step_defs)

subsection \<open>An arc with a flag that is not 0 or 1\<close>

text \<open>
  Claim C1. An arc with a flag that is not 0 or 1 is not skipped with the state unchanged,
  and it can raise. As the first command, the iteration of the arc appends the current
  point to the vertices before the flags are read (lines 148 to 150): \<^verbatim>\<open>a5 5 0 2 0 10 10\<close>
  leaves the vertex (0, 0) where the empty path leaves none. The iteration ends by
  \<^verbatim>\<open>continue\<close> (line 182), so \<^verbatim>\<open>last_letter\<close> is still \<^verbatim>\<open>None\<close> and a second
  such arc appends the point again. After a closepath the skipped arc appends the current
  point as well. And a flag that is not a digit raises ValueError: line 180 calls
  \<^verbatim>\<open>int\<close> on the flag before line 181 tests it.
\<close>

theorem arc_bad_flags_first_command:
  "path std fresh_surface (path_node ''a5 5 0 2 0 10 10'') =
     Some (Inr (fresh_surface\<lparr>ctx_calls := [Move_to 0 0, Set_tolerance (1 / 100000)]\<rparr>,
                (path_node ''a5 5 0 2 0 10 10'')\<lparr>node_vertices := Some [Some (0, 0)]\<rparr>))
   \<and> path std fresh_surface (path_node []) =
     Some (Inr (fresh_surface\<lparr>ctx_calls := [Move_to 0 0]\<rparr>,
                (path_node [])\<lparr>node_vertices := Some []\<rparr>))
   \<and> path std fresh_surface (path_node ''a5 5 0 2 0 10 10 a5 5 0 2 0 10 10'') =
     Some (Inr (fresh_surface\<lparr>ctx_calls :=
                  [Move_to 0 0, Set_tolerance (1 / 100000), Set_tolerance (1 / 100000)]\<rparr>,
                (path_node ''a5 5 0 2 0 10 10 a5 5 0 2 0 10 10'')\<lparr>node_vertices :=
                   Some [Some (0, 0), Some (0, 0)]\<rparr>))
   \<and> path std fresh_surface (path_node ''M1 1 L2 2 z a5 5 0 2 0 3 3'') =
     Some (Inr (fresh_surface\<lparr>ctx_calls :=
                  [Move_to 0 0, Move_to 1 1, Line_to 2 2, Close_path, Set_tolerance (1 / 100000)]\<rparr>,
                (path_node ''M1 1 L2 2 z a5 5 0 2 0 3 3'')\<lparr>node_vertices :=
                   Some [Some (1, 1), Some (3 * pi / 4, pi / 4), Some (2, 2), None, Some (1, 1)]\<rparr>))
   \<and> path std fresh_surface (path_node ''M1 1 L2 2 z'') =
     Some (Inr (fresh_surface\<lparr>ctx_calls := [Move_to 0 0, Move_to 1 1, Line_to 2 2, Close_path]\<rparr>,
                (path_node ''M1 1 L2 2 z'')\<lparr>node_vertices :=
                   Some [Some (1, 1), Some (3 * pi / 4, pi / 4), Some (2, 2), None]\<rparr>))
   \<and> path std fresh_surface (path_node ''M0 0 a5 5 0 + 1 10 10'') = Some (Inl ValueError)"
  by (simp add: path_defs env_defs prim_defs std_defs step_defs)

text \<open>
  The iteration of an arc whose arguments parse and whose two flags are decimal digits of
  which at least one is not 0 or 1, entered with \<^verbatim>\<open>last_letter\<close> set and other than
  \<^verbatim>\<open>z\<close> and \<^verbatim>\<open>Z\<close> (the last iteration that ran to its end was not a closepath): it
  returns without an exception; the only call it makes on the context is
  \<^verbatim>\<open>set_tolerance\<close>; the vertices, the current point and \<^verbatim>\<open>last_letter\<close> are
  unchanged; and the string that is left is the text after the arguments of the arc.
\<close>

theorem arc_bad_flags_skipped:
  assumes "fetch st = Inr st1" and "py_in (letter st1) ''aA''"
    and "last_letter st \<notin> {None, Some ''z'', Some ''Z''}"
    and "arc_args h (string st1) = Inr (rx, ry, d, large, sweep, ex, ey, s5)"
    and "int_of_char large = Inr li" and "int_of_char sweep = Inr si"
    and "li \<notin> {0, 1} \<or> si \<notin> {0, 1}"
  shows "\<exists>st'. path_step h st = Inr st' \<and>
           calls st' = calls st @ [Set_tolerance (1 / 100000)] \<and>
           vertices st' = vertices st \<and> current_point st' = current_point st \<and>
           last_letter st' = last_letter st \<and> string st' = s5"
proof -
  note fr = fetch_frame [OF assms(1)] fetch_vertices_inside [OF assms(1,3)]
  have "command h st1 = cmd_a h st1"
    using assms(2) by (simp add: command_def Let_def del: py_in.simps)
  also have "\<dots> = Inr (st1\<lparr>calls := calls st1 @ [Set_tolerance (1 / 100000)],
                   x1 := fst (current_point st1), y1 := snd (current_point st1),
                   x3 := ex, y3 := ey, string := s5\<rparr>)"
    using assms(4,5,6,7) by (auto simp: cmd_a_def Let_def)
  finally show ?thesis
    using fr by (simp add: path_step_def assms(1))
qed

text \<open>
  With \<^verbatim>\<open>last_letter\<close> \<^verbatim>\<open>M\<close> and the current point (1, 1), the arc
  \<^verbatim>\<open>a 5 5 0 2 0 10 10\<close> with the large-arc flag 2.
\<close>

theorem arc_bad_flags_skipped_witness:
  "\<exists>st'. path_step std (demo_state ''a 5 5 0 2 0 10 10 L 3 3'' ''M'' (Some ''M'') (1, 1) [Some (1, 1)]) = Inr st'
     \<and> calls st' = [Set_tolerance (1 / 100000)] \<and> vertices st' = [Some (1, 1)]
     \<and> current_point st' = (1, 1) \<and> last_letter st' = Some ''M'' \<and> string st' = ''L 3 3''"
proof -
  let ?st = "demo_state ''a 5 5 0 2 0 10 10 L 3 3'' ''M'' (Some ''M'') (1, 1) [Some (1, 1)]"
  let ?st1 = "?st\<lparr>string := ''5 5 0 2 0 10 10 L 3 3 '', letter := ''a'',
                  first_path_point := Some (1, 1)\<rparr>"
  have f: "fetch ?st = Inr ?st1"
    by (simp add: demo_state_def fetch_def prim_defs)
  have l: "py_in (letter ?st1) ''aA''" by simp
  have ll: "last_letter ?st \<notin> {None, Some ''z'', Some ''Z''}" by (simp add: demo_state_def)
  have a: "arc_args std (string ?st1) = Inr (5, 5, 0, CHR ''2'', CHR ''0'', 10, 10, ''L 3 3'')"
    by (simp add: arc_args_def std_defs prim_defs)
  have i1: "int_of_char CHR ''2'' = Inr 2" and i2: "int_of_char CHR ''0'' = Inr 0"
    by (simp_all add: int_of_char_def)
  have n: "(2::int) \<notin> {0, 1} \<or> (0::int) \<notin> {0, 1}" by simp
  from arc_bad_flags_skipped [OF f l ll a i1 i2 n] show ?thesis
    by (auto simp: demo_state_def)
qed

text \<open>
  The same iteration entered with \<^verbatim>\<open>last_letter\<close> \<^verbatim>\<open>None\<close>, \<^verbatim>\<open>z\<close> or
  \<^verbatim>\<open>Z\<close>, for any helpers: the current point is appended to the vertices, and
  \<^verbatim>\<open>last_letter\<close> is left as it was, so that the next command letter appends the point
  once more.
\<close>

theorem arc_bad_flags_appends:
  assumes "split1 (strip (string st) @ '' '') = (l, Some r)" and "l = ''a'' \<or> l = ''A''"
    and "last_letter st \<in> {None, Some ''z'', Some ''Z''}"
    and "arc_args h r = Inr (rx, ry, d, large, sweep, ex, ey, s5)"
    and "int_of_char large = Inr li" and "int_of_char sweep = Inr si"
    and "li \<notin> {0, 1} \<or> si \<notin> {0, 1}"
  shows "\<exists>st'. path_step h st = Inr st' \<and>
           calls st' = calls st @ [Set_tolerance (1 / 100000)] \<and>
           vertices st' = vertices st @ [Some (current_point st)] \<and>
           current_point st' = current_point st \<and>
           last_letter st' = last_letter st \<and> string st' = s5"
proof -
  have l: "py_in l PATH_LETTERS" "\<not> py_in l ''mM''" "py_in l ''aA''"
    using assms(2) by (auto simp: PATH_LETTERS_def)
  have "fst (split1 (strip (string st))) = l"
    using split1_append_space [of "strip (string st)"] assms(1) by simp
  then have p: "py_in (fst (split1 (strip (string st)))) PATH_LETTERS"
    using l(1) by simp
  have "\<exists>st1. fetch st = Inr st1 \<and> string st1 = r \<and> letter st1 = l \<and>
          vertices st1 = vertices st @ [Some (current_point st)]"
    using assms(1,3) p l(2)
    by (auto simp add: fetch_def Let_def simp del: py_in.simps)
  then obtain st1 where f: "fetch st = Inr st1" and s1: "string st1 = r" "letter st1 = l"
    and v1: "vertices st1 = vertices st @ [Some (current_point st)]"
    by blast
  note fr = fetch_frame [OF f]
  have "command h st1 = cmd_a h st1"
    using l(3) s1 by (simp add: command_def Let_def del: py_in.simps)
  also have "\<dots> = Inr (st1\<lparr>calls := calls st1 @ [Set_tolerance (1 / 100000)],
                   x1 := fst (current_point st1), y1 := snd (current_point st1),
                   x3 := ex, y3 := ey, string := s5\<rparr>)"
    using assms(4,5,6,7) s1 by (auto simp: cmd_a_def Let_def)
  finally show ?thesis
    using fr v1 by (simp add: path_step_def f)
qed

text \<open>The arc \<^verbatim>\<open>a 5 5 0 2 0 10 10\<close> as the first command, from the point (1, 1).\<close>

theorem arc_bad_flags_appends_witness:
  "\<exists>st'. path_step std (demo_state ''a 5 5 0 2 0 10 10 L 3 3'' ''Z'' None (1, 1) []) = Inr st'
     \<and> calls st' = [Set_tolerance (1 / 100000)] \<and> vertices st' = [Some (1, 1)]
     \<and> current_point st' = (1, 1) \<and> last_letter st' = None \<and> string st' = ''L 3 3''"
proof -
  let ?st = "demo_state ''a 5 5 0 2 0 10 10 L 3 3'' ''Z'' None (1, 1) []"
  have sp: "split1 (strip (string ?st) @ '' '') = (''a'', Some ''5 5 0 2 0 10 10 L 3 3 '')"
    by (simp add: demo_state_def prim_defs)
  have l: "''a'' = ''a'' \<or> ''a'' = ''A''" by simp
  have ll: "last_letter ?st \<in> {None, Some ''z'', Some ''Z''}" by (simp add: demo_state_def)
  have a: "arc_args std ''5 5 0 2 0 10 10 L 3 3 '' =
             Inr (5, 5, 0, CHR ''2'', CHR ''0'', 10, 10, ''L 3 3'')"
    by (simp add: arc_args_def std_defs prim_defs)
  have i1: "int_of_char CHR ''2'' = Inr 2" and i2: "int_of_char CHR ''0'' = Inr 0"
    by (simp_all add: int_of_char_def)
  have n: "(2::int) \<notin> {0, 1} \<or> (0::int) \<notin> {0, 1}" by simp
  from arc_bad_flags_appends [OF sp l ll a i1 i2 n] show ?thesis
    by (auto simp: demo_state_def)
qed

subsection \<open>The centre of the arc\<close>

lemma sqrt_16: "sqrt 16 = 4"
  using real_sqrt_abs [of 4] by simp

lemma arc_centre_eq:
  "arc_centre rx xe large sweep =
     (max rx (xe / 2), xe / 2,
      (if large \<noteq> sweep then 1 else - 1) * sqrt ((max rx (xe / 2))\<^sup>2 - (xe / 2)\<^sup>2))"
  by (simp add: arc_centre_def Let_def)

lemma arc_radicand_nonneg:
  assumes "0 \<le> (xe::real)"
  shows "0 \<le> (max rx (xe / 2))\<^sup>2 - (xe / 2)\<^sup>2"
proof -
  have "xe / 2 \<le> max rx (xe / 2)" by simp
  moreover have "0 \<le> xe / 2" using assms by simp
  ultimately have "(xe / 2)\<^sup>2 \<le> (max rx (xe / 2))\<^sup>2" by (rule power_mono)
  then show ?thesis by simp
qed

text \<open>
  Claim C8, amended. With \<open>xe\<close> the distance of the end point from the origin in the
  compressed frame (a value of \<open>hypot\<close>, so not negative): the x radius becomes
  \<open>max rx (xe / 2)\<close>, enlarged to \<open>xe / 2\<close> when that is larger and never made smaller;
  the centre lies at \<open>xe / 2\<close> along the chord, and its offset is the square root of
  \<open>rx\<^sup>2 - (xe / 2)\<^sup>2\<close> with the negative sign when the two flags are equal
  (\<^verbatim>\<open>large ^ sweep\<close> false) and the positive sign when they differ.
\<close>

theorem arc_centre_offset:
  "arc_centre rx xe large sweep =
     (max rx (xe / 2), xe / 2,
      (if large \<noteq> sweep then 1 else - 1) * sqrt ((max rx (xe / 2))\<^sup>2 - (xe / 2)\<^sup>2))
   \<and> rx \<le> fst (arc_centre rx xe large sweep)
   \<and> (rx < xe / 2 \<longrightarrow> fst (arc_centre rx xe large sweep) = xe / 2)
   \<and> (xe / 2 \<le> rx \<longrightarrow> fst (arc_centre rx xe large sweep) = rx)
   \<and> (0 \<le> xe \<longrightarrow> 0 \<le> (max rx (xe / 2))\<^sup>2 - (xe / 2)\<^sup>2
        \<and> (large \<noteq> sweep \<longrightarrow> 0 \<le> snd (snd (arc_centre rx xe large sweep)))
        \<and> (large = sweep \<longrightarrow> snd (snd (arc_centre rx xe large sweep)) \<le> 0))"
  using arc_radicand_nonneg [of xe rx] by (auto simp: arc_centre_eq)

text \<open>
  Radii 5 with the end point at distance 6: the offset is \<open>-4\<close> for equal flags and
  \<open>4\<close> for different ones; a radius 1 is enlarged to 3 and the offset is 0.
\<close>

theorem arc_centre_offset_witness:
  "arc_centre 5 6 False False = (5, 3, - 4) \<and> arc_centre 5 6 True False = (5, 3, 4)
   \<and> arc_centre 1 6 False True = (3, 3, 0)"
proof -
  have "arc_centre 5 6 False False = (5, 3, - 4)"
    using arc_centre_offset [of 5 6 False False] by (simp add: sqrt_16)
  moreover have "arc_centre 5 6 True False = (5, 3, 4)"
    using arc_centre_offset [of 5 6 True False] by (simp add: sqrt_16)
  moreover have "arc_centre 1 6 False True = (3, 3, 0)"
    using arc_centre_offset [of 1 6 False True] by simp
  ultimately show ?thesis by blast
qed

text \<open>
  The claim as stated gives the offset the positive sign when \<^verbatim>\<open>large ^ sweep\<close> is
  false. For \<^verbatim>\<open>M0 0 a5 5 0 0 0 6 0\<close> both flags are 0 and the centre passed to
  \<^verbatim>\<open>arc_negative\<close> is \<open>(3, -4)\<close>.
\<close>

theorem arc_offset_sign_counterexample:
  "path std fresh_surface (path_node ''M0 0 a5 5 0 0 0 6 0'') =
     Some (Inr (fresh_surface\<lparr>ctx_calls := [Move_to 0 0, Move_to 0 0, Set_tolerance (1 / 100000),
                   Save, Translate 0 0, Rotate 0, Scale 1 1,
                   Arc_negative 3 (- 4) 5 (arctan (- (4 / 3)) + pi) (arctan (4 / 3)), Restore]\<rparr>,
                (path_node ''M0 0 a5 5 0 0 0 6 0'')\<lparr>node_vertices :=
                   Some [Some (0, 0), Some (- arctan (- (4 / 3)) - pi, - arctan (4 / 3)), Some (6, 0)]\<rparr>))
   \<and> arc_centre 5 6 False False = (5, 3, - 4) \<and> \<not> (False \<noteq> False) \<and> (- 4 :: real) < 0"
  by (simp add: path_defs env_defs prim_defs std_defs step_defs)

subsection \<open>A marker reference that is not defined\<close>

lemma draw_marker_unresolved:
  "marker_ref h nd position \<noteq> [] \<Longrightarrow> markers surf (marker_ref h nd position) = None
   \<Longrightarrow> draw_marker h surf nd pt angle position cs = Inl AttributeError"
  by (simp add: draw_marker_def Let_def)

lemma draw_marker_no_ref:
  "marker_ref h nd position = [] \<Longrightarrow> draw_marker h surf nd pt angle position cs = Inr cs"
  by (simp add: draw_marker_def Let_def)

text \<open>
  Claim C3. When the node has a vertex followed by a pair of angles, and its reference for
  the position \<^verbatim>\<open>start\<close> is not empty and is not a key of \<^verbatim>\<open>surface.markers\<close>,
  \<^verbatim>\<open>draw_markers\<close> raises AttributeError: \<^verbatim>\<open>surface.markers.get\<close> gives
  \<^verbatim>\<open>None\<close> and line 53 calls \<^verbatim>\<open>.get\<close> on it. The claim wants the position skipped
  and the others drawn.
\<close>

theorem unresolved_marker_raises:
  assumes "node_vertices nd = Some (pt # Some a # vs)"
    and "marker_ref h nd ''start'' \<noteq> []"
    and "markers surf (marker_ref h nd ''start'') = None"
  shows "draw_markers h surf nd = Inl AttributeError"
proof -
  obtain a0 a1 where a: "a = (a0, a1)" by (cases a)
  have "marker_iter h surf nd pt (Some a) None None ''start'' (ctx_calls surf) = Inl AttributeError"
    using assms(2,3) by (simp add: marker_iter_def orientation_def a draw_marker_unresolved)
  then show ?thesis using assms(1) by (simp add: draw_markers_def)
qed

text \<open>
  A path node with \<^verbatim>\<open>marker-start="url(#missing)"\<close> on a surface without markers.
\<close>

theorem unresolved_marker_raises_witness:
  "draw_markers std fresh_surface
     (empty_node\<lparr>attrs := [''marker-start'' \<mapsto> ''url(#missing)''],
                 node_vertices := Some [Some (0, 0), Some (pi, 0), Some (10, 0)]\<rparr>) = Inl AttributeError"
proof -
  let ?nd = "empty_node\<lparr>attrs := [''marker-start'' \<mapsto> ''url(#missing)''],
                 node_vertices := Some [Some (0, 0), Some (pi, 0), Some (10, 0)]\<rparr>"
  have r: "marker_ref std ?nd ''start'' = ''missing''"
    by (simp add: marker_ref_def std_def std_url_fragment_def)
  show ?thesis
    by (rule unresolved_marker_raises [of ?nd "Some (0, 0)" "(pi, 0)" "[Some (10, 0)]"])
       (simp_all add: r fresh_surface_def)
qed

subsection \<open>The angle of a marker\<close>

text \<open>
  Claim C5, amended. Before the half turn and the override by \<^verbatim>\<open>orient\<close>, the angle
  at a start vertex is \<open>pi\<close> minus the first (incoming) angle of the pair that follows the
  vertex; at a mid vertex it is half of the second (outgoing) angle of the pair before it
  plus \<open>pi\<close> minus the first angle of the pair after it; at an end vertex it is the first
  angle of the last pair read. On the vertices of a subpath of three points the three
  markers are drawn with these angles, and the loop leaves no vertex. For \<^verbatim>\<open>M0 0 L10 0 L10 10\<close> the interpreter
  records the pairs \<open>(pi, 0)\<close> and \<open>(pi / 2, pi / 2)\<close>, and the mid vertex (10, 0) gets
  the angle \<open>pi / 4\<close>.
\<close>

theorem marker_orientation:
  "orientation (Some (a0, a1)) g1 g2 ''start'' = Inr (Some (pi - a0), Some a0, Some a1, ''start'')
   \<and> orientation (Some (b0, b1)) g1 (Some g) ''mid'' =
       Inr (Some ((g + pi - b0) / 2), Some b0, Some b1, ''mid'')
   \<and> orientation None g1 g2 position = Inr (g1, g1, g2, ''end'')
   \<and> marker_loop h surf nd [p0, Some (a0, a1), p1, Some (b0, b1), p2] None None ''start'' cs =
       ebind (draw_marker h surf nd p0 (Some (pi - a0)) ''start'' cs) (\<lambda>cs1.
       ebind (draw_marker h surf nd p1 (Some ((a1 + pi - b0) / 2)) ''mid'' cs1) (\<lambda>cs2.
       ebind (draw_marker h surf nd p2 (Some b0) ''end'' cs2) (\<lambda>cs3. Inr ([], cs3))))
   \<and> path std fresh_surface (path_node ''M0 0 L10 0 L10 10'') =
       Some (Inr (fresh_surface\<lparr>ctx_calls := [Move_to 0 0, Move_to 0 0, Line_to 10 0, Line_to 10 10]\<rparr>,
                  (path_node ''M0 0 L10 0 L10 10'')\<lparr>node_vertices :=
                     Some [Some (0, 0), Some (pi, 0), Some (10, 0), Some (pi / 2, pi / 2), Some (10, 10)]\<rparr>))
   \<and> orientation (Some (pi / 2, pi / 2)) (Some pi) (Some 0) ''mid'' =
       Inr (Some (pi / 4), Some (pi / 2), Some (pi / 2), ''mid'')"
proof -
  have 1: "marker_loop h surf nd [p0, Some (a0, a1), p1, Some (b0, b1), p2] None None ''start'' cs =
       ebind (draw_marker h surf nd p0 (Some (pi - a0)) ''start'' cs) (\<lambda>cs1.
       ebind (draw_marker h surf nd p1 (Some ((a1 + pi - b0) / 2)) ''mid'' cs1) (\<lambda>cs2.
       ebind (draw_marker h surf nd p2 (Some b0) ''end'' cs2) (\<lambda>cs3. Inr ([], cs3))))"
    by (simp add: marker_iter_def orientation_def ebind_def split: sum.splits)
  have 2: "path std fresh_surface (path_node ''M0 0 L10 0 L10 10'') =
       Some (Inr (fresh_surface\<lparr>ctx_calls := [Move_to 0 0, Move_to 0 0, Line_to 10 0, Line_to 10 10]\<rparr>,
                  (path_node ''M0 0 L10 0 L10 10'')\<lparr>node_vertices :=
                     Some [Some (0, 0), Some (pi, 0), Some (10, 0), Some (pi / 2, pi / 2), Some (10, 10)]\<rparr>))"
    by (simp add: path_defs env_defs prim_defs std_defs step_defs)
  show ?thesis
    unfolding 1 2 by (simp add: orientation_def)
qed

text \<open>
  The vertices of \<^verbatim>\<open>M0 0 L10 0 L10 10\<close> with the marker \<^verbatim>\<open>dot\<close> at the mid
  position: the marker is drawn at (10, 0), rotated by \<open>pi / 4\<close> plus the half turn.
\<close>

theorem marker_orientation_witness:
  "draw_markers std dot_surface
     (empty_node\<lparr>attrs := [''marker-mid'' \<mapsto> ''url(#dot)''],
                 node_vertices := Some [Some (0, 0), Some (pi, 0), Some (10, 0),
                                        Some (pi / 2, pi / 2), Some (10, 10)]\<rparr>) =
   Inr (dot_surface\<lparr>ctx_calls := [Copy_path, New_path, Save, Translate 10 0, Rotate (pi / 4 + pi),
                      Scale1 1, Scale 1 1, Translate 0 0, Draw ''circle'', Restore, Append_path]\<rparr>,
        empty_node\<lparr>attrs := [''marker-mid'' \<mapsto> ''url(#dot)''], node_vertices := Some []\<rparr>)"
proof -
  let ?nd = "empty_node\<lparr>attrs := [''marker-mid'' \<mapsto> ''url(#dot)''],
                 node_vertices := Some [Some (0, 0), Some (pi, 0), Some (10, 0),
                                        Some (pi / 2, pi / 2), Some (10, 10)]\<rparr>"
  note t = marker_orientation [of pi 0 None None "pi / 2" "pi / 2" 0 "''start''" std dot_surface ?nd
      "Some (0, 0)" "Some (10, 0)" "Some (10, 10)" "[]"]
  from t have loop: "marker_loop std dot_surface ?nd
      [Some (0, 0), Some (pi, 0), Some (10, 0), Some (pi / 2, pi / 2), Some (10, 10)]
      None None ''start'' [] =
       ebind (draw_marker std dot_surface ?nd (Some (0, 0)) (Some (pi - pi)) ''start'' []) (\<lambda>cs1.
       ebind (draw_marker std dot_surface ?nd (Some (10, 0)) (Some ((0 + pi - pi / 2) / 2)) ''mid'' cs1) (\<lambda>cs2.
       ebind (draw_marker std dot_surface ?nd (Some (10, 10)) (Some (pi / 2)) ''end'' cs2) (\<lambda>cs3.
         Inr ([], cs3))))"
    by blast
  have c: "ctx_calls dot_surface = []" by (simp add: dot_surface_def fresh_surface_def)
  have nv: "node_vertices ?nd = Some [Some (0, 0), Some (pi, 0), Some (10, 0),
                                        Some (pi / 2, pi / 2), Some (10, 10)]"
    by simp
  show ?thesis
    apply (simp only: draw_markers_def nv option.case list.case c)
    apply (subst loop)
    apply (simp add: marker_defs dot_surface_def env_defs prim_defs std_defs)
    done
qed

text \<open>
  The claim as stated takes \<open>pi\<close> minus the outgoing angle at a start vertex. For
  \<^verbatim>\<open>M0 0 L10 0\<close> the pair is \<open>(pi, 0)\<close>: the outgoing angle is 0 and the claim gives
  \<open>pi\<close>, while the code computes \<open>pi - pi = 0\<close> from the incoming angle.
\<close>

theorem start_angle_counterexample:
  "path std fresh_surface (path_node ''M0 0 L10 0'') =
       Some (Inr (fresh_surface\<lparr>ctx_calls := [Move_to 0 0, Move_to 0 0, Line_to 10 0]\<rparr>,
                  (path_node ''M0 0 L10 0'')\<lparr>node_vertices :=
                     Some [Some (0, 0), Some (pi, 0), Some (10, 0)]\<rparr>))
   \<and> orientation (Some (pi, 0)) None None ''start'' = Inr (Some 0, Some pi, Some 0, ''start'')
   \<and> pi - 0 \<noteq> (0::real)"
  by (simp add: path_defs env_defs prim_defs std_defs step_defs orientation_def)

section \<open>Further properties of the interpreter\<close>

subsection \<open>Straight lines\<close>

text \<open>
  The commands \<^verbatim>\<open>l\<close>, \<^verbatim>\<open>L\<close>, \<^verbatim>\<open>h\<close> and \<^verbatim>\<open>H\<close> append the pair
  \<open>(pi - angle, angle)\<close> and then the new current point, and make one line call. The
  angle is \<^verbatim>\<open>point_angle\<close> from the old to the new point for \<^verbatim>\<open>l\<close> and \<^verbatim>\<open>L\<close>,
  and 0 or \<open>pi\<close> for the horizontal commands.
\<close>

theorem line_tangent_pair:
  "(letter st = ''l'' \<and> point h (string st) = Inr (x, y, s) \<longrightarrow>
      (\<exists>st'. command h st = Inr st' \<and>
         vertices st' = vertices st @
           [Some (pi - point_angle h 0 0 x y, point_angle h 0 0 x y), Some (current_point st')] \<and>
         current_point st' = (fst (current_point st) + x, snd (current_point st) + y) \<and>
         calls st' = calls st @ [Rel_line_to x y]))
   \<and> (letter st = ''L'' \<and> point h (string st) = Inr (x, y, s) \<longrightarrow>
      (\<exists>st'. command h st = Inr st' \<and>
         vertices st' = vertices st @
           [Some (pi - point_angle h (fst (current_point st)) (snd (current_point st)) x y,
                  point_angle h (fst (current_point st)) (snd (current_point st)) x y),
            Some (x, y)] \<and>
         current_point st' = (x, y) \<and> calls st' = calls st @ [Line_to x y]))
   \<and> (letter st = ''h'' \<and> split1 (string st @ '' '') = (tok, Some s) \<and> size h tok ''x'' = Inr x \<longrightarrow>
      (\<exists>st'. command h st = Inr st' \<and>
         vertices st' = vertices st @
           [Some (pi - (if x > 0 then 0 else pi), if x > 0 then 0 else pi), Some (current_point st')] \<and>
         current_point st' = (fst (current_point st) + x, snd (current_point st)) \<and>
         calls st' = calls st @ [Rel_line_to x 0]))
   \<and> (letter st = ''H'' \<and> split1 (string st @ '' '') = (tok, Some s) \<and> size h tok ''x'' = Inr x \<longrightarrow>
      (\<exists>st'. command h st = Inr st' \<and>
         vertices st' = vertices st @
           [Some (pi - (if x > fst (current_point st) then 0 else pi),
                  if x > fst (current_point st) then 0 else pi), Some (current_point st')] \<and>
         current_point st' = (x, snd (current_point st)) \<and>
         calls st' = calls st @ [Line_to x (snd (current_point st))]))"
  by (simp add: command_def cmd_l_def cmd_L_def cmd_h_def cmd_H_def finish_def Let_def)

text \<open>The relative line \<^verbatim>\<open>l 3 4\<close> from the point (1, 1).\<close>

theorem line_tangent_pair_witness:
  "\<exists>st'. command std (demo_state ''3 4 '' ''l'' (Some ''M'') (1, 1) [Some (1, 1)]) = Inr st' \<and>
     vertices st' = [Some (1, 1), Some (pi - arctan (4 / 3), arctan (4 / 3)), Some (4, 5)] \<and>
     calls st' = [Rel_line_to 3 4]"
proof -
  let ?st = "demo_state ''3 4 '' ''l'' (Some ''M'') (1, 1) [Some (1, 1)]"
  have l: "letter ?st = ''l''" by (simp add: demo_state_def)
  have p: "point std (string ?st) = Inr (3, 4, [])"
    by (simp add: demo_state_def std_defs prim_defs)
  have a: "point_angle std 0 0 3 4 = arctan (4 / 3)"
    by (simp add: std_defs)
  from line_tangent_pair [of ?st std 3 4 "[]"] l p a show ?thesis
    by (auto simp: demo_state_def)
qed

text \<open>
  The vertical commands \<^verbatim>\<open>v\<close> and \<^verbatim>\<open>V\<close> append \<open>(- angle, angle)\<close> with
  \<open>angle\<close> a quarter turn of the sign of the displacement; the sign of a displacement
  of 0 is the sign bit of the float, here \<open>negative_zero\<close>.
\<close>

theorem vertical_line_pair:
  "(letter st = ''v'' \<and> split1 (string st @ '' '') = (tok, Some s) \<and> size h tok ''y'' = Inr y \<longrightarrow>
      (\<exists>st'. command h st = Inr st' \<and>
         vertices st' = vertices st @
           [Some (- copysign (pi / 2) y (negative_zero h st),
                  copysign (pi / 2) y (negative_zero h st)), Some (current_point st')] \<and>
         current_point st' = (fst (current_point st), snd (current_point st) + y)))
   \<and> (letter st = ''V'' \<and> split1 (string st @ '' '') = (tok, Some s) \<and> size h tok ''y'' = Inr y \<longrightarrow>
      (\<exists>st'. command h st = Inr st' \<and>
         vertices st' = vertices st @
           [Some (- copysign (pi / 2) (y - snd (current_point st)) (negative_zero h st),
                  copysign (pi / 2) (y - snd (current_point st)) (negative_zero h st)),
            Some (current_point st')] \<and>
         current_point st' = (fst (current_point st), y)))"
  by (simp add: command_def cmd_v_def cmd_V_def finish_def Let_def)

text \<open>The vertical line \<^verbatim>\<open>V -10\<close> from the point (1, 1).\<close>

theorem vertical_line_pair_witness:
  "\<exists>st'. command std (demo_state ''-10'' ''V'' (Some ''M'') (1, 1) [Some (1, 1)]) = Inr st' \<and>
     vertices st' = [Some (1, 1), Some (pi / 2, - (pi / 2)), Some (1, - 10)]"
proof -
  let ?st = "demo_state ''-10'' ''V'' (Some ''M'') (1, 1) [Some (1, 1)]"
  have l: "letter ?st = ''V''" by (simp add: demo_state_def)
  have sp: "split1 (string ?st @ '' '') = (''-10'', Some [])"
    by (simp add: demo_state_def)
  have sz: "size std ''-10'' ''y'' = Inr (- 10)"
    by (simp add: std_defs prim_defs)
  from vertical_line_pair [of ?st "''-10''" "[]" std "- 10"] l sp sz show ?thesis
    by (auto simp: demo_state_def copysign_def)
qed

text \<open>
  A displacement of zero: \<^verbatim>\<open>v0\<close> records \<open>(- pi / 2, pi / 2)\<close> and \<^verbatim>\<open>v-0\<close>, whose
  float is the negative zero, records \<open>(pi / 2, - pi / 2)\<close>.
\<close>

lemma vertical_line_zero:
  "path std fresh_surface (path_node ''M0 0 v0'') =
     Some (Inr (fresh_surface\<lparr>ctx_calls := [Move_to 0 0, Move_to 0 0, Rel_line_to 0 0]\<rparr>,
                (path_node ''M0 0 v0'')\<lparr>node_vertices :=
                   Some [Some (0, 0), Some (- (pi / 2), pi / 2), Some (0, 0)]\<rparr>))
   \<and> path std fresh_surface (path_node ''M0 0 v-0'') =
     Some (Inr (fresh_surface\<lparr>ctx_calls := [Move_to 0 0, Move_to 0 0, Rel_line_to 0 0]\<rparr>,
                (path_node ''M0 0 v-0'')\<lparr>node_vertices :=
                   Some [Some (0, 0), Some (pi / 2, - (pi / 2)), Some (0, 0)]\<rparr>))"
  by (simp add: path_defs env_defs prim_defs std_defs step_defs)

subsection \<open>The control point of a smooth cubic\<close>

text \<open>
  Every cubic command leaves the absolute end point of its curve in \<open>x3\<close>, \<open>y3\<close>: it
  is the new current point.
\<close>

lemma cubic_leaves_end_point:
  assumes "cmd_c h st = Inr st' \<or> cmd_C h st = Inr st' \<or> cmd_s h st = Inr st' \<or> cmd_S h st = Inr st'"
  shows "(x3 st', y3 st') = current_point st'"
  using assms
  by (auto simp: cmd_c_def cmd_C_def cmd_s_def cmd_S_def Let_def ebind_def
      split: sum.splits option.splits prod.splits)

text \<open>
  A smooth cubic that is not the first command, read in a state where \<open>x3\<close>, \<open>y3\<close>
  is the current point (as every cubic command leaves it): after \<^verbatim>\<open>c\<close>, \<^verbatim>\<open>C\<close>,
  \<^verbatim>\<open>s\<close> or \<^verbatim>\<open>S\<close> the first control point is the reflection of the last second
  control point (\<open>x2\<close>, \<open>y2\<close>) through the current point; after any other command it
  is the current point. \<^verbatim>\<open>s\<close> passes it relative to the current point.
\<close>

theorem smooth_cubic_reflection:
  assumes "last_letter st = Some ll" and "(x3 st, y3 st) = current_point st"
    and "point h (string st) = Inr (a2, b2, s1)" and "point h s1 = Inr (a3, b3, s2)"
  shows "(letter st = ''S'' \<longrightarrow>
      (\<exists>st'. command h st = Inr st' \<and>
         calls st' = calls st @
           [if py_in ll ''csCS''
            then Curve_to (2 * fst (current_point st) - x2 st) (2 * snd (current_point st) - y2 st)
                   a2 b2 a3 b3
            else Curve_to (fst (current_point st)) (snd (current_point st)) a2 b2 a3 b3] \<and>
         current_point st' = (a3, b3) \<and> (x2 st', y2 st') = (a2, b2) \<and>
         (x3 st', y3 st') = current_point st'))
   \<and> (letter st = ''s'' \<longrightarrow>
      (\<exists>st'. command h st = Inr st' \<and>
         calls st' = calls st @
           [if py_in ll ''csCS''
            then Rel_curve_to (fst (current_point st) - x2 st) (snd (current_point st) - y2 st)
                   a2 b2 a3 b3
            else Rel_curve_to 0 0 a2 b2 a3 b3] \<and>
         current_point st' = (fst (current_point st) + a3, snd (current_point st) + b3) \<and>
         (x2 st', y2 st') = (a2 + fst (current_point st), b2 + snd (current_point st)) \<and>
         (x3 st', y3 st') = current_point st'))"
proof -
  from assms(2) have x: "x3 st = fst (current_point st)" "y3 st = snd (current_point st)"
    by (cases "current_point st"; simp)+
  show ?thesis
    using assms(1,3,4) x
    by (simp add: command_def cmd_S_def cmd_s_def finish_def Let_def)
qed

text \<open>
  \<^verbatim>\<open>M0 0 C10 0 10 10 20 10 S30 20 40 10\<close>: the first control point of the smooth segment
  is (30, 10), the reflection of (10, 10) through (20, 10).
\<close>

theorem smooth_cubic_reflection_witness:
  "(\<exists>st'. command std ((demo_state ''30 20 40 10 '' ''S'' (Some ''C'') (20, 10) [])
             \<lparr>x2 := 10, y2 := 10, x3 := 20, y3 := 10\<rparr>) = Inr st'
      \<and> calls st' = [Curve_to 30 10 30 20 40 10])
   \<and> path std fresh_surface (path_node ''M0 0 C10 0 10 10 20 10 S30 20 40 10'') =
       Some (Inr (fresh_surface\<lparr>ctx_calls := [Move_to 0 0, Move_to 0 0, Curve_to 10 0 10 10 20 10,
                     Curve_to 30 10 30 20 40 10]\<rparr>,
                  (path_node ''M0 0 C10 0 10 10 20 10 S30 20 40 10'')\<lparr>node_vertices :=
                     Some [Some (0, 0), Some (- (pi / 2), 0), Some (20, 10),
                           Some (- (pi / 2), - (pi / 4)), Some (40, 10)]\<rparr>))"
proof -
  let ?st = "(demo_state ''30 20 40 10 '' ''S'' (Some ''C'') (20, 10) [])
             \<lparr>x2 := 10, y2 := 10, x3 := 20, y3 := 10\<rparr>"
  have 1: "last_letter ?st = Some ''C''" and 2: "(x3 ?st, y3 ?st) = current_point ?st"
    and l: "letter ?st = ''S''"
    by (simp_all add: demo_state_def)
  have 3: "point std (string ?st) = Inr (30, 20, ''40 10 '')"
    by (simp add: demo_state_def std_defs prim_defs)
  have 4: "point std ''40 10 '' = Inr (40, 10, [])"
    by (simp add: std_defs prim_defs)
  from smooth_cubic_reflection [OF 1 2 3 4] l
  have "\<exists>st'. command std ?st = Inr st' \<and> calls st' = [Curve_to 30 10 30 20 40 10]"
    by (auto simp: demo_state_def)
  moreover have "path std fresh_surface (path_node ''M0 0 C10 0 10 10 20 10 S30 20 40 10'') =
       Some (Inr (fresh_surface\<lparr>ctx_calls := [Move_to 0 0, Move_to 0 0, Curve_to 10 0 10 10 20 10,
                     Curve_to 30 10 30 20 40 10]\<rparr>,
                  (path_node ''M0 0 C10 0 10 10 20 10 S30 20 40 10'')\<lparr>node_vertices :=
                     Some [Some (0, 0), Some (- (pi / 2), 0), Some (20, 10),
                           Some (- (pi / 2), - (pi / 4)), Some (40, 10)]\<rparr>))"
    by (simp add: path_defs env_defs prim_defs std_defs step_defs arctan_minus)
  ultimately show ?thesis by blast
qed

subsection \<open>An arc with a zero radius inside a path\<close>

lemma fetch_letter_token:
  assumes "split1 (strip (string st) @ '' '') = (l, Some r)" and "py_in l PATH_LETTERS"
  shows "\<exists>st1. fetch st = Inr st1 \<and> string st1 = r \<and> letter st1 = l"
proof -
  have "fst (split1 (strip (string st))) = l"
    using split1_append_space [of "strip (string st)"] assms(1) by simp
  then have p: "py_in (fst (split1 (strip (string st)))) PATH_LETTERS"
    using assms(2) by simp
  show ?thesis
    using assms(1) p
    by (simp add: fetch_def Let_def del: py_in.simps insert_iff)
qed

text \<open>
  An arc with a zero radius and flags 0 or 1, entered with \<^verbatim>\<open>last_letter\<close> set and
  other than \<^verbatim>\<open>z\<close> and \<^verbatim>\<open>Z\<close>: its iteration writes the relative line into the string, and when
  \<^verbatim>\<open>point\<close> reads the two numbers back, the next iteration draws that line. After the
  two iterations the vertices, the current point and the last letter are those of the
  relative line, and the calls are \<^verbatim>\<open>set_tolerance\<close> and the line.
\<close>

theorem degenerate_arc_as_line:
  assumes "fetch st = Inr st1" and "py_in (letter st1) ''aA''"
    and "last_letter st \<notin> {None, Some ''z'', Some ''Z''}"
    and "arc_args h (string st1) = Inr (rx, ry, d, large, sweep, ex, ey, s5)"
    and "int_of_char large = Inr li" and "int_of_char sweep = Inr si"
    and "li \<in> {0, 1}" and "si \<in> {0, 1}" and "rx = 0 \<or> ry = 0"
    and "ex' = (if letter st1 = ''A'' then ex - fst (current_point st) else ex)"
    and "ey' = (if letter st1 = ''A'' then ey - snd (current_point st) else ey)"
    and "split1 (strip (degenerate_arc h (letter st1) ex' ey' s5) @ '' '') = (''l'', Some r)"
    and "point h r = Inr (ex', ey', s6)"
  shows "\<exists>st2 st3. path_step h st = Inr st2 \<and> path_step h st2 = Inr st3 \<and>
           string st2 = degenerate_arc h (letter st1) ex' ey' s5 \<and>
           vertices st3 = vertices st @
             [Some (pi - point_angle h 0 0 ex' ey', point_angle h 0 0 ex' ey'),
              Some (current_point st3)] \<and>
           current_point st3 = (fst (current_point st) + ex', snd (current_point st) + ey') \<and>
           calls st3 = calls st @ [Set_tolerance (1 / 100000), Rel_line_to ex' ey'] \<and>
           last_letter st3 = Some ''l'' \<and> string st3 = strip s6"
proof -
  note fr = fetch_frame [OF assms(1)] fetch_vertices_inside [OF assms(1,3)]
  define st2 where "st2 = st1\<lparr>calls := calls st1 @ [Set_tolerance (1 / 100000)],
                   x1 := fst (current_point st1), y1 := snd (current_point st1),
                   x3 := ex', y3 := ey',
                   string := degenerate_arc h (letter st1) ex' ey' s5\<rparr>"
  have "command h st1 = cmd_a h st1"
    using assms(2) by (simp add: command_def Let_def del: py_in.simps)
  also have "\<dots> = Inr st2"
    using assms(4-11) fr(1) by (auto simp: cmd_a_def Let_def st2_def)
  finally have s1: "path_step h st = Inr st2"
    by (simp add: path_step_def assms(1))
  have ll2: "last_letter st2 \<notin> {None, Some ''z'', Some ''Z''}"
    using assms(3) fr(3) by (simp add: st2_def)
  have sp: "split1 (strip (string st2) @ '' '') = (''l'', Some r)"
    using assms(12) by (simp add: st2_def)
  have "py_in ''l'' PATH_LETTERS" by (simp add: PATH_LETTERS_def)
  from fetch_letter_token [OF sp this]
  obtain st2' where f2: "fetch st2 = Inr st2'" and str2: "string st2' = r"
    and l2: "letter st2' = ''l''"
    by blast
  note fr2 = fetch_frame [OF f2] fetch_vertices_inside [OF f2 ll2]
  have "command h st2' = Inr (finish (st2'\<lparr>string := s6,
         vertices := vertices st2' @
           [Some (pi - point_angle h 0 0 ex' ey', point_angle h 0 0 ex' ey')],
         calls := calls st2' @ [Rel_line_to ex' ey'],
         current_point := (fst (current_point st2') + ex', snd (current_point st2') + ey')\<rparr>))"
    using assms(13) l2 str2 by (simp add: command_def cmd_l_def Let_def)
  then have s2: "path_step h st2 = Inr (finish (st2'\<lparr>string := s6,
         vertices := vertices st2' @
           [Some (pi - point_angle h 0 0 ex' ey', point_angle h 0 0 ex' ey')],
         calls := calls st2' @ [Rel_line_to ex' ey'],
         current_point := (fst (current_point st2') + ex', snd (current_point st2') + ey')\<rparr>))"
    by (simp add: path_step_def f2)
  show ?thesis
    using s1 s2 fr fr2 l2 by (simp add: finish_def st2_def)
qed

text \<open>After \<^verbatim>\<open>M1 1\<close>, the arc \<^verbatim>\<open>a 0 5 0 0 0 5 5\<close> followed by \<^verbatim>\<open>Z\<close>.\<close>

theorem degenerate_arc_as_line_witness:
  "\<exists>st2 st3. path_step std (demo_state ''a 0 5 0 0 0 5 5 Z'' ''M'' (Some ''M'') (1, 1) [Some (1, 1)]) = Inr st2
      \<and> path_step std st2 = Inr st3 \<and> string st2 = ''l 5.0 5.0 Z''
      \<and> vertices st3 = [Some (1, 1), Some (3 * pi / 4, pi / 4), Some (6, 6)]
      \<and> calls st3 = [Set_tolerance (1 / 100000), Rel_line_to 5 5]
      \<and> last_letter st3 = Some ''l'' \<and> string st3 = ''Z''"
proof -
  let ?st = "demo_state ''a 0 5 0 0 0 5 5 Z'' ''M'' (Some ''M'') (1, 1) [Some (1, 1)]"
  let ?st1 = "?st\<lparr>string := ''0 5 0 0 0 5 5 Z '', letter := ''a'',
                  first_path_point := Some (1, 1)\<rparr>"
  have f: "fetch ?st = Inr ?st1"
    by (simp add: demo_state_def fetch_def prim_defs)
  have l: "py_in (letter ?st1) ''aA''" by simp
  have ll: "last_letter ?st \<notin> {None, Some ''z'', Some ''Z''}" by (simp add: demo_state_def)
  have a: "arc_args std (string ?st1) = Inr (0, 5, 0, CHR ''0'', CHR ''0'', 5, 5, ''Z'')"
    by (simp add: arc_args_def std_defs prim_defs)
  have i: "int_of_char CHR ''0'' = Inr 0" by (simp add: int_of_char_def)
  have d: "degenerate_arc std (letter ?st1) 5 5 ''Z'' = ''l 5.0 5.0 Z''"
    by (simp add: degenerate_arc_def std_defs prim_defs)
  have sp: "split1 (strip (degenerate_arc std (letter ?st1) 5 5 ''Z'') @ '' '') = (''l'', Some ''5.0 5.0 Z '')"
    unfolding d by (simp add: prim_defs)
  have p: "point std ''5.0 5.0 Z '' = Inr (5, 5, ''Z '')"
    by (simp add: std_defs prim_defs)
  have "\<exists>st2 st3. path_step std ?st = Inr st2 \<and> path_step std st2 = Inr st3 \<and>
           string st2 = degenerate_arc std (letter ?st1) 5 5 ''Z'' \<and>
           vertices st3 = vertices ?st @
             [Some (pi - point_angle std 0 0 5 5, point_angle std 0 0 5 5),
              Some (current_point st3)] \<and>
           current_point st3 = (fst (current_point ?st) + 5, snd (current_point ?st) + 5) \<and>
           calls st3 = calls ?st @ [Set_tolerance (1 / 100000), Rel_line_to 5 5] \<and>
           last_letter st3 = Some ''l'' \<and> string st3 = strip ''Z ''"
    by (rule degenerate_arc_as_line [OF f l ll a i i _ _ _ _ _ sp p]) simp_all
  then show ?thesis
    unfolding d by (auto simp: demo_state_def prim_defs std_defs)
qed

subsection \<open>A path whose interpretation does not return\<close>

lemma path_loop_step:
  assumes "string st \<noteq> []" and "path_step h st = Inr st'"
  shows "path_loop h st = path_loop h st'"
  using assms by (subst path_loop.simps) simp

lemma path_loop_stuck:
  assumes "string st \<noteq> []" and "path_step h st = Inr st"
  shows "path_loop h st = None"
proof (cases "path_loop h st")
  case None
  then show ?thesis .
next
  case (Some y)
  have "\<not> (h' = h \<and> st' = st)" if "path_loop h' st' = Some y'" for h' st' y'
  proof (rule path_loop.raw_induct [where P = "\<lambda>h' st' y'. \<not> (h' = h \<and> st' = st)", OF _ that])
    fix f h' st' y'
    assume ih: "\<And>a b c. f a b = Some c \<Longrightarrow> \<not> (a = h \<and> b = st)"
      and body: "(if string st' = [] then Some (Inr st')
                  else case path_step h' st' of Inl e \<Rightarrow> Some (Inl e)
                       | Inr st'' \<Rightarrow> f h' st'') = Some y'"
    show "\<not> (h' = h \<and> st' = st)"
    proof
      assume "h' = h \<and> st' = st"
      with body assms have "f h st = Some y'" by simp
      from ih [OF this] show False by simp
    qed
  qed
  from this [OF Some] show ?thesis by simp
qed

text \<open>
  Numbers after a closepath are never consumed: the letter is still \<^verbatim>\<open>Z\<close>, no branch
  reads the string, and the loop goes on for ever.
\<close>

theorem numbers_after_closepath_loop:
  "path std fresh_surface (path_node ''M0 0 L10 0 Z 5 5'') = None"
proof -
  let ?s4 = "\<lparr>string = ''5 5'', letter = ''Z'', last_letter = Some ''Z'', current_point = (0, 0),
      first_path_point = None, x1 = 0, y1 = 0, x2 = 0, y2 = 0, x3 = 0, y3 = 0,
      vertices = [Some (0, 0), Some (pi, 0), Some (10, 0), None], 
      calls = [Move_to 0 0, Move_to 0 0, Line_to 10 0, Close_path]\<rparr>"
  have stuck: "path_loop std ?s4 = None"
    by (rule path_loop_stuck) (simp_all add: step_defs prim_defs)
  have "path_loop std (init_state std fresh_surface (path_node ''M0 0 L10 0 Z 5 5'')) = path_loop std ?s4"
    apply (simp add: init_state_def env_defs prim_defs std_defs)
    apply (subst path_loop.simps, simp add: step_defs prim_defs std_defs)
    apply (subst path_loop.simps, simp add: step_defs prim_defs std_defs)
    apply (subst path_loop.simps, simp add: step_defs prim_defs std_defs)
    apply (subst path_loop.simps, simp add: step_defs prim_defs std_defs)
    done
  with stuck show ?thesis by (simp add: path_def)
qed

subsection \<open>A node without marker references\<close>

lemma marker_loop_no_refs:
  assumes "\<And>p. marker_ref h nd p = []" and "position = ''start'' \<or> angle2 \<noteq> None"
  shows "marker_loop h surf nd vs angle1 angle2 position cs = Inr ([], cs)"
  using assms(2)
proof (induction vs arbitrary: angle1 angle2 position rule: induct_list012)
  case 1
  then show ?case by simp
next
  case (2 pt)
  then show ?case
    by (simp add: marker_iter_def orientation_def draw_marker_no_ref assms(1))
next
  case (3 pt angles vs)
  show ?case
  proof (cases angles)
    case None
    then show ?thesis
      using 3(1) [of "''start''"]
      by (simp add: marker_iter_def orientation_def draw_marker_no_ref assms(1))
  next
    case (Some a)
    obtain a0 a1 where a: "a = (a0, a1)" by (cases a)
    from 3(3) obtain g where "position = ''start'' \<or> angle2 = Some g" by auto
    then show ?thesis
      using 3(1) [of "''mid''" "Some a1" "Some a0"] Some a
      by (auto simp: marker_iter_def orientation_def draw_marker_no_ref assms(1))
  qed
qed

text \<open>
  When the node has vertices and no marker reference for any position, \<^verbatim>\<open>draw_markers\<close>
  returns, makes no call and leaves \<^verbatim>\<open>node.vertices\<close> empty.
\<close>

theorem draw_markers_without_markers:
  assumes "\<And>p. marker_ref h nd p = []" and "node_vertices nd = Some (v # vs)"
  shows "draw_markers h surf nd = Inr (surf, nd\<lparr>node_vertices := Some []\<rparr>)"
  using assms(2) marker_loop_no_refs [OF assms(1), of "''start''" None surf "v # vs" None "ctx_calls surf"]
  by (simp add: draw_markers_def)

text \<open>A node with two subpaths and no marker attribute.\<close>

theorem draw_markers_without_markers_witness:
  "draw_markers std dot_surface
     (empty_node\<lparr>node_vertices := Some [Some (0, 0), Some (pi, 0), Some (10, 0), None, Some (5, 5)]\<rparr>)
   = Inr (dot_surface, empty_node\<lparr>node_vertices := Some []\<rparr>)"
proof -
  let ?nd = "empty_node\<lparr>node_vertices := Some [Some (0, 0), Some (pi, 0), Some (10, 0), None, Some (5, 5)]\<rparr>"
  have r: "marker_ref std ?nd p = []" for p
    by (simp add: marker_ref_def empty_node_def std_def std_url_fragment_def)
  have v: "node_vertices ?nd = Some (Some (0, 0) # [Some (pi, 0), Some (10, 0), None, Some (5, 5)])"
    by simp
  from draw_markers_without_markers [OF r v, of dot_surface] show ?thesis by simp
qed

end
